theory Spec2Isabelle
  imports Complex_Main "HOL-Library.AList" "HOL-Library.Sublist"
begin

section \<open>Python values\<close>

text \<open>
  The program is dynamically typed, so its values are one datatype. A float is a finite
  real or one of the three non-finite values; a \<open>date\<close> carries year, month, day; a
  \<open>datetime\<close> carries an instant (year, month, day, microsecond of the day). A dictionary is
  an association list in insertion order with string keys (every dictionary of this
  program is an attribute dictionary, a literal with string keys, or the template mapping,
  whose keys passed the allow-list). An instance of \<open>Item\<close> or \<open>CustomField\<close> is its
  class name with its attribute dictionary.
\<close>

datatype pyfloat = Finite real | PosInf | NegInf | NaN

type_synonym instant = "nat \<times> nat \<times> nat \<times> nat"

datatype pyval =
    PNone
  | PBool bool
  | PInt int
  | PFloat pyfloat
  | PStr string
  | PDate nat nat nat
  | PDateTime instant
  | PList "pyval list"
  | PDict "(string \<times> pyval) list"
  | PObj string "(string \<times> pyval) list"

type_synonym pydict = "(string \<times> pyval) list"

text \<open>
  The text of a formatted message is kept as its parts, in order: the literal text and the
  values interpolated by \<open>str.format\<close> or an f-string. \<open>render\<close> gives the final string for
  a given \<open>str\<close> builtin.
\<close>

datatype fpart = Lit string | Val pyval

fun render_part :: "(pyval \<Rightarrow> string) \<Rightarrow> fpart \<Rightarrow> string" where
  "render_part str (Lit s) = s"
| "render_part str (Val v) = str v"

definition render :: "(pyval \<Rightarrow> string) \<Rightarrow> fpart list \<Rightarrow> string" where
  "render str ps = concat (map (render_part str) ps)"

datatype pyerror =
    LocaleError
  | KeyError string
  | AttributeError string
  | TypeError
  | ValueError "fpart list"
  | JSONDecodeError
  | ConnectionError
  | PyException "fpart list"

section \<open>Statements that may raise\<close>

text \<open>
  A statement takes the state and gives its outcome, a raised error or a value, with the
  state it leaves behind: what was mutated before an exception stays mutated.
\<close>

type_synonym ('s, 'a) prog = "'s \<Rightarrow> (pyerror + 'a) \<times> 's"

definition ret :: "'a \<Rightarrow> ('s, 'a) prog" where
  "ret x s = (Inr x, s)"

definition raise :: "pyerror \<Rightarrow> ('s, 'a) prog" where
  "raise e s = (Inl e, s)"

definition bind :: "('s, 'a) prog \<Rightarrow> ('a \<Rightarrow> ('s, 'b) prog) \<Rightarrow> ('s, 'b) prog" where
  "bind m f s = (case m s of (Inl e, s') \<Rightarrow> (Inl e, s') | (Inr x, s') \<Rightarrow> f x s')"

section \<open>The process and its surroundings\<close>

text \<open>
  \<open>locale_db\<close> is the locale database of the C library: for each locale name that
  \<open>setlocale\<close> accepts, its twelve abbreviated month names. \<open>lc_time\<close> is the table of the
  locale now in effect in the process. \<open>files\<close> is the file system, \<open>posted\<close> the bodies
  of the POST requests sent so far. Opening a path for writing always succeeds here.
\<close>

type_synonym bytes = "nat list"

record world =
  locale_db :: "(string \<times> string list) list"
  lc_time :: "string list"
  files :: "string \<Rightarrow> bytes option"
  posted :: "pyval list"

record response =
  status_code :: int
  content :: bytes
  json_body :: "pyerror + pyval"

text \<open>
  The remote service: given the requests already received and the JSON body of this one,
  the transport raises or a response comes back.
\<close>

type_synonym server = "pyval list \<Rightarrow> pyval \<Rightarrow> pyerror + response"

type_synonym pstate = "world \<times> pydict"

section \<open>Dictionary and attribute primitives\<close>

definition od_get :: "string \<Rightarrow> (pstate, pyval) prog" where
  "od_get k = (\<lambda>(w, d). (Inr (case map_of d k of None \<Rightarrow> PNone | Some v \<Rightarrow> v), (w, d)))"

definition od_getitem :: "string \<Rightarrow> (pstate, pyval) prog" where
  "od_getitem k = (\<lambda>(w, d). case map_of d k of None \<Rightarrow> (Inl (KeyError k), (w, d))
                                | Some v \<Rightarrow> (Inr v, (w, d)))"

definition getattr_self :: "string \<Rightarrow> (pstate, pyval) prog" where
  "getattr_self k = (\<lambda>(w, d). case map_of d k of None \<Rightarrow> (Inl (AttributeError k), (w, d))
                                  | Some v \<Rightarrow> (Inr v, (w, d)))"

definition od_setitem :: "string \<Rightarrow> pyval \<Rightarrow> (pstate, unit) prog" where
  "od_setitem k v = (\<lambda>(w, d). (Inr (), (w, AList.update k v d)))"

definition od_pop :: "string \<Rightarrow> (pstate, unit) prog" where
  "od_pop k = (\<lambda>(w, d). case map_of d k of None \<Rightarrow> (Inl (KeyError k), (w, d))
                            | Some v \<Rightarrow> (Inr (), (w, AList.delete k d)))"

section \<open>Locale and date formatting\<close>

definition setlocale :: "string \<Rightarrow> (pstate, unit) prog" where
  "setlocale name = (\<lambda>(w, d). case map_of (locale_db w) name of
       None \<Rightarrow> (Inl LocaleError, (w, d))
     | Some tbl \<Rightarrow> (Inr (), (w\<lparr>lc_time := tbl\<rparr>, d)))"

definition digit :: "nat \<Rightarrow> char" where
  "digit n = ''0123456789'' ! (n mod 10)"

definition pad2 :: "nat \<Rightarrow> string" where
  "pad2 n = [digit (n div 10), digit n]"

definition pad4 :: "nat \<Rightarrow> string" where
  "pad4 n = [digit (n div 1000), digit (n div 100), digit (n div 10), digit n]"

text \<open>
  The directives of \<open>strftime\<close> that the program uses: \<open>%d\<close> is the day as two digits,
  \<open>%b\<close> the abbreviated month name of the locale in effect, \<open>%Y\<close> the year as four
  digits, \<open>%%\<close> a percent sign. Any other directive is left as it stands. A date
  object always has a month from 1 to 12 and a day from 1 to 31, a year from 1 to 9999,
  and the table of a locale has twelve names.
\<close>

definition directive :: "string list \<Rightarrow> nat \<Rightarrow> nat \<Rightarrow> nat \<Rightarrow> char \<Rightarrow> string" where
  "directive tbl y m d c =
     (if c = CHR ''d'' then pad2 d
      else if c = CHR ''b'' then tbl ! (m - 1)
      else if c = CHR ''Y'' then pad4 y
      else if c = CHR ''%'' then [c]
      else [CHR ''%'', c])"

fun format_date :: "string list \<Rightarrow> nat \<Rightarrow> nat \<Rightarrow> nat \<Rightarrow> string \<Rightarrow> string" where
  "format_date tbl y m d [] = []"
| "format_date tbl y m d [c] = [c]"
| "format_date tbl y m d (c # c' # cs) =
     (if c = CHR ''%'' then directive tbl y m d c' @ format_date tbl y m d cs
      else c # format_date tbl y m d (c' # cs))"

text \<open>The method \<open>strftime\<close> exists on dates and datetimes only.\<close>

fun strftime_of :: "string list \<Rightarrow> string \<Rightarrow> pyval \<Rightarrow> string option" where
  "strftime_of tbl fmt (PDate y m d) = Some (format_date tbl y m d fmt)"
| "strftime_of tbl fmt (PDateTime (y, m, d, t)) = Some (format_date tbl y m d fmt)"
| "strftime_of tbl fmt v = None"

definition strftime :: "pyval \<Rightarrow> string \<Rightarrow> (pstate, pyval) prog" where
  "strftime v fmt = (\<lambda>(w, d). case strftime_of (lc_time w) fmt v of
       None \<Rightarrow> (Inl (AttributeError ''strftime''), (w, d))
     | Some s \<Rightarrow> (Inr (PStr s), (w, d)))"

section \<open>The class \<open>InvoiceGenerator\<close>\<close>

definition URL :: string where
  "URL = ''https://invoice-generator.com''"

definition DATE_FORMAT :: string where
  "DATE_FORMAT = ''%d %b %Y''"

definition LOCALE :: string where
  "LOCALE = ''en_US.utf8''"

definition TIMEZONE :: string where
  "TIMEZONE = ''UTC''"

definition TEMPLATE_PARAMETERS :: "string list" where
  "TEMPLATE_PARAMETERS =
     [''header'', ''to_title'', ''ship_to_title'', ''invoice_number_title'', ''date_title'',
      ''payment_terms_title'', ''due_date_title'', ''purchase_order_title'',
      ''quantity_header'', ''item_header'', ''unit_cost_header'', ''amount_header'',
      ''subtotal_title'', ''discounts_title'', ''tax_title'', ''shipping_title'',
      ''total_title'', ''amount_paid_title'', ''balance_title'', ''terms_title'',
      ''notes_title'']"

text \<open>
  The default of the parameter \<open>date\<close> is the expression \<open>datetime.now(tz=...)\<close> in the
  signature of \<open>__init__\<close>. Python evaluates it when the \<open>def\<close> statement runs, that
  is when the class body is executed, and keeps the value in the function object. The
  class object therefore carries it; \<open>now\<close> is the clock at that moment.
\<close>

record invoice_class =
  default_date :: pyval

definition define_InvoiceGenerator :: "instant \<Rightarrow> invoice_class" where
  "define_InvoiceGenerator now = \<lparr>default_date = PDateTime now\<rparr>"

text \<open>An argument that the caller leaves out is \<open>None\<close> here and takes its default.\<close>

definition arg_or :: "'a option \<Rightarrow> 'a \<Rightarrow> 'a" where
  "arg_or a d = (case a of None \<Rightarrow> d | Some v \<Rightarrow> v)"

record init_args =
  a_sender :: pyval
  a_to :: pyval
  a_logo :: "pyval option"
  a_ship_to :: "pyval option"
  a_number :: "pyval option"
  a_payments_terms :: "pyval option"
  a_due_date :: "pyval option"
  a_notes :: "pyval option"
  a_terms :: "pyval option"
  a_currency :: "pyval option"
  a_date :: "pyval option"
  a_discounts :: "pyval option"
  a_tax :: "pyval option"
  a_shipping :: "pyval option"
  a_amount_paid :: "pyval option"

text \<open>The attribute dictionary of the new object, in the order of the assignments.\<close>

definition InvoiceGenerator_init :: "invoice_class \<Rightarrow> init_args \<Rightarrow> pydict" where
  "InvoiceGenerator_init cls a =
     [(''logo'', arg_or (a_logo a) PNone),
      (''sender'', a_sender a),
      (''to'', a_to a),
      (''ship_to'', arg_or (a_ship_to a) PNone),
      (''number'', arg_or (a_number a) PNone),
      (''currency'', arg_or (a_currency a) (PStr ''USD'')),
      (''custom_fields'', PList []),
      (''date'', arg_or (a_date a) (default_date cls)),
      (''payment_terms'', arg_or (a_payments_terms a) PNone),
      (''due_date'', arg_or (a_due_date a) PNone),
      (''items'', PList []),
      (''fields'', PDict [(''tax'', PStr ''%''), (''discounts'', PBool False),
                          (''shipping'', PBool False)]),
      (''discounts'', arg_or (a_discounts a) (PInt 0)),
      (''tax'', arg_or (a_tax a) (PInt 0)),
      (''shipping'', arg_or (a_shipping a) (PInt 0)),
      (''amount_paid'', arg_or (a_amount_paid a) (PInt 0)),
      (''notes'', arg_or (a_notes a) PNone),
      (''terms'', arg_or (a_terms a) PNone),
      (''template'', PDict [])]"

definition Item_init :: "pyval \<Rightarrow> pyval \<Rightarrow> pyval \<Rightarrow> pyval \<Rightarrow> pyval" where
  "Item_init name quantity unit_cost description =
     PObj ''Item'' [(''name'', name), (''quantity'', quantity), (''unit_cost'', unit_cost),
                    (''description'', description)]"

definition CustomField_init :: "pyval \<Rightarrow> pyval \<Rightarrow> pyval" where
  "CustomField_init name val = PObj ''CustomField'' [(''name'', name), (''value'', val)]"

text \<open>
  \<open>self.items.append(x)\<close>: the attribute is looked up, then \<open>append\<close> on it; the list
  is changed in place, so the entry of the attribute dictionary keeps its position.
\<close>

definition attr_append :: "string \<Rightarrow> pyval \<Rightarrow> (pydict, unit) prog" where
  "attr_append k x = (\<lambda>d. case map_of d k of
       None \<Rightarrow> (Inl (AttributeError k), d)
     | Some (PList xs) \<Rightarrow> (Inr (), AList.update k (PList (xs @ [x])) d)
     | Some _ \<Rightarrow> (Inl (AttributeError ''append''), d))"

definition add_custom_field :: "pyval option \<Rightarrow> pyval option \<Rightarrow> (pydict, unit) prog" where
  "add_custom_field name val =
     attr_append ''custom_fields'' (CustomField_init (arg_or name PNone) (arg_or val PNone))"

definition add_item ::
  "pyval option \<Rightarrow> pyval option \<Rightarrow> pyval option \<Rightarrow> pyval option \<Rightarrow> (pydict, unit) prog" where
  "add_item name quantity unit_cost description =
     attr_append ''items''
       (Item_init (arg_or name PNone) (arg_or quantity (PInt 0))
          (arg_or unit_cost (PFloat (Finite 0))) (arg_or description PNone))"

text \<open>
  \<open>self.template[k] = value\<close>: item assignment on the dictionary held by the attribute.
  Membership in the list of parameters is by equality, so only a string can be a member.
\<close>

definition attr_setitem :: "string \<Rightarrow> string \<Rightarrow> pyval \<Rightarrow> (pydict, unit) prog" where
  "attr_setitem a k v = (\<lambda>d. case map_of d a of
       None \<Rightarrow> (Inl (AttributeError a), d)
     | Some (PDict t) \<Rightarrow> (Inr (), AList.update a (PDict (AList.update k v t)) d)
     | Some _ \<Rightarrow> (Inl TypeError, d))"

definition invalid_parameter :: "pyval \<Rightarrow> pyerror" where
  "invalid_parameter template_parameter =
     ValueError [Lit ''The parameter '', Val template_parameter,
                 Lit '' is not a valid template parameter. See docs.'']"

definition set_template_text :: "pyval \<Rightarrow> pyval \<Rightarrow> (pydict, unit) prog" where
  "set_template_text template_parameter val =
     (case template_parameter of
        PStr k \<Rightarrow>
          if k \<in> set TEMPLATE_PARAMETERS then attr_setitem ''template'' k val
          else raise (invalid_parameter template_parameter)
      | _ \<Rightarrow> raise (invalid_parameter template_parameter))"

definition toggle_subtotal ::
  "pyval option \<Rightarrow> pyval option \<Rightarrow> pyval option \<Rightarrow> (pydict, unit) prog" where
  "toggle_subtotal tax discounts shipping = (\<lambda>d.
     (Inr (), AList.update ''fields''
        (PDict [(''tax'', arg_or tax (PStr ''%'')),
                (''discounts'', arg_or discounts (PBool False)),
                (''shipping'', arg_or shipping (PBool False))]) d))"

section \<open>Serialization\<close>

text \<open>
  The loop \<open>for index, item in enumerate(xs): xs[index] = item.__dict__\<close> over a list:
  the iterator reads position \<open>i\<close> while \<open>i\<close> is below the length, and the body replaces
  that position in place. Only an instance has \<open>__dict__\<close>.
\<close>

fun obj_dict :: "pyval \<Rightarrow> pyval option" where
  "obj_dict (PObj c d) = Some (PDict d)"
| "obj_dict v = None"

function flatten_loop :: "nat \<Rightarrow> pyval list \<Rightarrow> (pyerror + unit) \<times> pyval list" where
  "flatten_loop i xs =
     (if i < length xs then
        (case obj_dict (xs ! i) of
           None \<Rightarrow> (Inl (AttributeError ''__dict__''), xs)
         | Some d \<Rightarrow> flatten_loop (Suc i) (xs[i := d]))
      else (Inr (), xs))"
  by pat_completeness auto
termination
  by (relation "measure (\<lambda>(i, xs). length xs - i)") auto

declare flatten_loop.simps [simp del]

text \<open>
  The same loop on whatever the entry holds. A string or a dictionary can be enumerated
  too; its elements are strings, so the first iteration raises. Any other value is not
  iterable.
\<close>

definition flatten :: "string \<Rightarrow> (pstate, unit) prog" where
  "flatten k = (\<lambda>(w, d). case map_of d k of
       None \<Rightarrow> (Inl (KeyError k), (w, d))
     | Some (PList xs) \<Rightarrow>
         (case flatten_loop 0 xs of (r, xs') \<Rightarrow> (r, (w, AList.update k (PList xs') d)))
     | Some (PStr s) \<Rightarrow>
         (if s = [] then (Inr (), (w, d)) else (Inl (AttributeError ''__dict__''), (w, d)))
     | Some (PDict kvs) \<Rightarrow>
         (if kvs = [] then (Inr (), (w, d)) else (Inl (AttributeError ''__dict__''), (w, d)))
     | Some _ \<Rightarrow> (Inl TypeError, (w, d)))"

text \<open>\<open>v.items()\<close> exists on a dictionary only.\<close>

definition dict_items :: "pyval \<Rightarrow> (pstate, pydict) prog" where
  "dict_items v = (case v of PDict kvs \<Rightarrow> ret kvs | _ \<Rightarrow> raise (AttributeError ''items''))"

text \<open>\<open>for template_parameter, value in kvs: object_dict[template_parameter] = value\<close>\<close>

definition merge_items :: "pydict \<Rightarrow> (pstate, unit) prog" where
  "merge_items kvs = (\<lambda>(w, d). (Inr (), (w, fold (\<lambda>(k, v). AList.update k v) kvs d)))"

text \<open>
  \<open>json.dumps\<close> accepts \<open>None\<close>, booleans, numbers, strings, lists and dictionaries of
  such values, and raises \<open>TypeError\<close> on anything else. The JSON text is represented by
  the value it denotes, so that \<open>json.loads\<close> of it is that value again.
\<close>

primrec json_serializable :: "pyval \<Rightarrow> bool" where
  "json_serializable PNone = True"
| "json_serializable (PBool b) = True"
| "json_serializable (PInt i) = True"
| "json_serializable (PFloat f) = True"
| "json_serializable (PStr s) = True"
| "json_serializable (PDate y m d) = False"
| "json_serializable (PDateTime t) = False"
| "json_serializable (PList xs) = list_all (\<lambda>b. b) (map json_serializable xs)"
| "json_serializable (PDict kvs) =
     list_all (\<lambda>b. b) (map snd (map (map_prod id json_serializable) kvs))"
| "json_serializable (PObj c d) = False"

definition json_dumps :: "pyval \<Rightarrow> pyerror + pyval" where
  "json_dumps v = (if json_serializable v then Inr v else Inl TypeError)"

definition json_loads :: "pyval \<Rightarrow> pyval" where
  "json_loads js = js"

definition dumps_self :: "(pstate, pyval) prog" where
  "dumps_self = (\<lambda>(w, d). (json_dumps (PDict d), (w, d)))"

text \<open>
  \<open>_to_json\<close>, statement by statement. \<open>object_dict\<close> is \<open>self.__dict__\<close> itself, not a
  copy: the state of the program is the attribute dictionary of the invoice, and every
  assignment and \<open>pop\<close> below acts on it.
\<close>

definition to_json :: "(pstate, pyval) prog" where
  "to_json =
     bind (setlocale LOCALE) (\<lambda>_.
     bind (od_get ''sender'') (\<lambda>sender.
     bind (od_setitem ''from'' sender) (\<lambda>_.
     bind (getattr_self ''date'') (\<lambda>date.
     bind (strftime date DATE_FORMAT) (\<lambda>date_str.
     bind (od_setitem ''date'' date_str) (\<lambda>_.
     bind (od_getitem ''due_date'') (\<lambda>due.
     bind (if due \<noteq> PNone then
             bind (getattr_self ''due_date'') (\<lambda>due_date.
             bind (strftime due_date DATE_FORMAT) (\<lambda>due_str.
             od_setitem ''due_date'' due_str))
           else ret ()) (\<lambda>_.
     bind (od_pop ''sender'') (\<lambda>_.
     bind (flatten ''items'') (\<lambda>_.
     bind (flatten ''custom_fields'') (\<lambda>_.
     bind (getattr_self ''template'') (\<lambda>template.
     bind (dict_items template) (\<lambda>kvs.
     bind (merge_items kvs) (\<lambda>_.
     bind (od_pop ''template'') (\<lambda>_.
     dumps_self)))))))))))))))"

section \<open>Submission\<close>

definition requests_post :: "server \<Rightarrow> pyval \<Rightarrow> (pstate, response) prog" where
  "requests_post srv body = (\<lambda>(w, d).
     (srv (posted w) body, (w\<lparr>posted := posted w @ [body]\<rparr>, d)))"

definition write_file :: "string \<Rightarrow> bytes \<Rightarrow> (pstate, unit) prog" where
  "write_file file_path b = (\<lambda>(w, d). (Inr (), (w\<lparr>files := (files w)(file_path \<mapsto> b)\<rparr>, d)))"

definition response_json :: "response \<Rightarrow> (pstate, pyval) prog" where
  "response_json r = (case json_body r of Inl e \<Rightarrow> raise e | Inr v \<Rightarrow> ret v)"

definition download_failed :: "pyval \<Rightarrow> int \<Rightarrow> pyerror" where
  "download_failed body code =
     PyException [Lit ''Invoice download request returned the following message:'', Val body,
                  Lit '' Response code = '', Val (PInt code), Lit '' '']"

definition download :: "server \<Rightarrow> string \<Rightarrow> (pstate, unit) prog" where
  "download srv file_path =
     bind to_json (\<lambda>json_string.
     bind (requests_post srv (json_loads json_string)) (\<lambda>response.
     if status_code response = 200 then write_file file_path (content response)
     else bind (response_json response) (\<lambda>body.
          raise (download_failed body (status_code response)))))"

section \<open>The batch script\<close>

definition date_key :: string where
  "date_key = ''Date (UTC)''"

definition description :: string where
  "description = ''Description''"

definition amount :: string where
  "amount = ''Amount''"

text \<open>
  The two library parsers are parameters: \<open>strptime\<close> reads a string in the format
  \<open>%m-%d-%Y\<close> into year, month and day, \<open>float_of\<close> reads a string into a float; each
  raises on a string it does not accept. A row of the CSV reader holds strings, or
  \<open>None\<close> where a column is missing, and \<open>None\<close> is refused by both with
  \<open>TypeError\<close>; no other value occurs in a row.
\<close>

record parsers =
  strptime :: "string \<Rightarrow> pyerror + nat \<times> nat \<times> nat"
  float_of :: "string \<Rightarrow> pyerror + pyfloat"

definition row_getitem :: "pydict \<Rightarrow> string \<Rightarrow> pyerror + pyval" where
  "row_getitem r k = (case map_of r k of None \<Rightarrow> Inl (KeyError k) | Some v \<Rightarrow> Inr v)"

definition parse_date :: "parsers \<Rightarrow> pyval \<Rightarrow> pyerror + pyval" where
  "parse_date P v = (case v of
       PStr s \<Rightarrow> (case strptime P s of Inl e \<Rightarrow> Inl e | Inr (y, m, d) \<Rightarrow> Inr (PDate y m d))
     | _ \<Rightarrow> Inl TypeError)"

definition parse_float :: "parsers \<Rightarrow> pyval \<Rightarrow> pyerror + pyval" where
  "parse_float P v = (case v of
       PStr s \<Rightarrow> (case float_of P s of Inl e \<Rightarrow> Inl e | Inr f \<Rightarrow> Inr (PFloat f))
     | _ \<Rightarrow> Inl TypeError)"

definition clean :: "parsers \<Rightarrow> pydict \<Rightarrow> pyerror + pydict" where
  "clean P rec =
     (case row_getitem rec date_key of Inl e \<Rightarrow> Inl e | Inr dv \<Rightarrow>
     (case parse_date P dv of Inl e \<Rightarrow> Inl e | Inr dt \<Rightarrow>
     (case row_getitem (AList.update date_key dt rec) amount of Inl e \<Rightarrow> Inl e | Inr av \<Rightarrow>
     (case parse_float P av of Inl e \<Rightarrow> Inl e | Inr a \<Rightarrow>
        Inr (AList.update amount a (AList.update date_key dt rec))))))"

text \<open>The comparison \<open>x < 0\<close>: on a float it is false for NaN.\<close>

fun float_lt_zero :: "pyfloat \<Rightarrow> bool" where
  "float_lt_zero (Finite r) = (r < 0)"
| "float_lt_zero NegInf = True"
| "float_lt_zero PosInf = False"
| "float_lt_zero NaN = False"

fun lt_zero :: "pyval \<Rightarrow> pyerror + bool" where
  "lt_zero (PFloat f) = Inr (float_lt_zero f)"
| "lt_zero (PInt i) = Inr (i < 0)"
| "lt_zero (PBool b) = Inr False"
| "lt_zero v = Inl TypeError"

text \<open>\<open>str\<close> of a date is its ISO form; it is applied to the date that \<open>clean\<close> stored.\<close>

fun date_str :: "pyval \<Rightarrow> string" where
  "date_str (PDate y m d) = pad4 y @ ''-'' @ pad2 m @ ''-'' @ pad2 d"
| "date_str v = []"

text \<open>
  One pass of the loop body for a row already cleaned: the result says whether the loop
  goes on, with the world after it. The pause between two submissions changes nothing
  here.
\<close>

definition new_invoice :: "invoice_class \<Rightarrow> pyval \<Rightarrow> pyval \<Rightarrow> pydict" where
  "new_invoice cls desc dt =
     InvoiceGenerator_init cls
       \<lparr>a_sender = PStr ''EA2 Consulting'', a_to = desc, a_logo = None, a_ship_to = None,
        a_number = None, a_payments_terms = None, a_due_date = None, a_notes = None,
        a_terms = None, a_currency = None, a_date = Some dt, a_discounts = None,
        a_tax = None, a_shipping = None, a_amount_paid = None\<rparr>"

definition process_row ::
  "invoice_class \<Rightarrow> server \<Rightarrow> pydict \<Rightarrow> world \<Rightarrow> (pyerror + unit) \<times> world" where
  "process_row cls srv row w =
     (case row_getitem row amount of Inl e \<Rightarrow> (Inl e, w) | Inr a \<Rightarrow>
     (case lt_zero a of Inl e \<Rightarrow> (Inl e, w) | Inr neg \<Rightarrow>
      if neg then (Inr (), w)
      else
       (case row_getitem row description of Inl e \<Rightarrow> (Inl e, w) | Inr desc \<Rightarrow>
       (case row_getitem row date_key of Inl e \<Rightarrow> (Inl e, w) | Inr dt \<Rightarrow>
       (case add_item (Some (PStr ''Consultative services'')) (Some (PInt 1)) (Some a) None
               (new_invoice cls desc dt) of
          (Inl e, invoice) \<Rightarrow> (Inl e, w)
        | (Inr u, invoice) \<Rightarrow>
            (case download srv (''invoices/'' @ date_str dt @ ''.pdf'') (w, invoice) of
               (r, (w', invoice')) \<Rightarrow> (r, w')))))))"

fun main :: "invoice_class \<Rightarrow> parsers \<Rightarrow> server \<Rightarrow> pydict list \<Rightarrow> world \<Rightarrow> (pyerror + unit) \<times> world" where
  "main cls P srv [] w = (Inr (), w)"
| "main cls P srv (rec # records) w =
     (case clean P rec of
        Inl e \<Rightarrow> (Inl e, w)
      | Inr row \<Rightarrow>
          (case process_row cls srv row w of
             (Inl e, w') \<Rightarrow> (Inl e, w')
           | (Inr u, w') \<Rightarrow> main cls P srv records w'))"

section \<open>Client programs\<close>

text \<open>
  A client builds an invoice with the constructor and then calls the four mutators in any
  order. A call that raises leaves the state it had reached; the client may catch the
  exception and go on, so the state after a sequence of calls is that of the last call
  whether it raised or not.
\<close>

datatype call =
    AddItem "pyval option" "pyval option" "pyval option" "pyval option"
  | AddCustomField "pyval option" "pyval option"
  | SetTemplateText pyval pyval
  | ToggleSubtotal "pyval option" "pyval option" "pyval option"

fun exec_call :: "call \<Rightarrow> (pydict, unit) prog" where
  "exec_call (AddItem name quantity unit_cost descr) = add_item name quantity unit_cost descr"
| "exec_call (AddCustomField name val) = add_custom_field name val"
| "exec_call (SetTemplateText template_parameter val) = set_template_text template_parameter val"
| "exec_call (ToggleSubtotal tax discounts shipping) = toggle_subtotal tax discounts shipping"

definition after_calls :: "call list \<Rightarrow> pydict \<Rightarrow> pydict" where
  "after_calls cs s = fold (\<lambda>c s. snd (exec_call c s)) cs s"

text \<open>The arguments of the \<open>add_item\<close> calls of a client, in order, defaults filled in.\<close>

fun item_args :: "call list \<Rightarrow> (pyval \<times> pyval \<times> pyval \<times> pyval) list" where
  "item_args [] = []"
| "item_args (AddItem name quantity unit_cost descr # cs) =
     (arg_or name PNone, arg_or quantity (PInt 0), arg_or unit_cost (PFloat (Finite 0)),
      arg_or descr PNone) # item_args cs"
| "item_args (c # cs) = item_args cs"

fun custom_field_args :: "call list \<Rightarrow> (pyval \<times> pyval) list" where
  "custom_field_args [] = []"
| "custom_field_args (AddCustomField name val # cs) =
     (arg_or name PNone, arg_or val PNone) # custom_field_args cs"
| "custom_field_args (c # cs) = custom_field_args cs"

fun fields_after :: "call list \<Rightarrow> pyval \<Rightarrow> pyval" where
  "fields_after [] flds = flds"
| "fields_after (ToggleSubtotal tax discounts shipping # cs) flds =
     fields_after cs (PDict [(''tax'', arg_or tax (PStr ''%'')),
                             (''discounts'', arg_or discounts (PBool False)),
                             (''shipping'', arg_or shipping (PBool False))])"
| "fields_after (c # cs) flds = fields_after cs flds"

fun template_after :: "call list \<Rightarrow> pydict \<Rightarrow> pydict" where
  "template_after [] t = t"
| "template_after (SetTemplateText (PStr k) val # cs) t =
     template_after cs (if k \<in> set TEMPLATE_PARAMETERS then AList.update k val t else t)"
| "template_after (c # cs) t = template_after cs t"

text \<open>
  The attribute dictionary of an invoice with given lists of items and custom fields,
  display toggles and template mapping; the constructor gives the one with empty lists.
\<close>

definition invoice_of ::
  "invoice_class \<Rightarrow> init_args \<Rightarrow> pyval list \<Rightarrow> pyval list \<Rightarrow> pyval \<Rightarrow> pydict \<Rightarrow> pydict" where
  "invoice_of cls a items cfs flds tmpl =
     [(''logo'', arg_or (a_logo a) PNone),
      (''sender'', a_sender a),
      (''to'', a_to a),
      (''ship_to'', arg_or (a_ship_to a) PNone),
      (''number'', arg_or (a_number a) PNone),
      (''currency'', arg_or (a_currency a) (PStr ''USD'')),
      (''custom_fields'', PList cfs),
      (''date'', arg_or (a_date a) (default_date cls)),
      (''payment_terms'', arg_or (a_payments_terms a) PNone),
      (''due_date'', arg_or (a_due_date a) PNone),
      (''items'', PList items),
      (''fields'', flds),
      (''discounts'', arg_or (a_discounts a) (PInt 0)),
      (''tax'', arg_or (a_tax a) (PInt 0)),
      (''shipping'', arg_or (a_shipping a) (PInt 0)),
      (''amount_paid'', arg_or (a_amount_paid a) (PInt 0)),
      (''notes'', arg_or (a_notes a) PNone),
      (''terms'', arg_or (a_terms a) PNone),
      (''template'', PDict tmpl)]"

text \<open>
  The same dictionary after the statements of \<open>_to_json\<close> up to the loop over the
  template: \<open>from\<close> added at the end, \<open>sender\<close> removed, the dates and lists replaced.
\<close>

definition rewritten ::
  "init_args \<Rightarrow> pyval list \<Rightarrow> pyval list \<Rightarrow> pyval \<Rightarrow> pydict \<Rightarrow> pyval \<Rightarrow> pyval \<Rightarrow> pydict" where
  "rewritten a items cfs flds tmpl dt due =
     [(''logo'', arg_or (a_logo a) PNone),
      (''to'', a_to a),
      (''ship_to'', arg_or (a_ship_to a) PNone),
      (''number'', arg_or (a_number a) PNone),
      (''currency'', arg_or (a_currency a) (PStr ''USD'')),
      (''custom_fields'', PList cfs),
      (''date'', dt),
      (''payment_terms'', arg_or (a_payments_terms a) PNone),
      (''due_date'', due),
      (''items'', PList items),
      (''fields'', flds),
      (''discounts'', arg_or (a_discounts a) (PInt 0)),
      (''tax'', arg_or (a_tax a) (PInt 0)),
      (''shipping'', arg_or (a_shipping a) (PInt 0)),
      (''amount_paid'', arg_or (a_amount_paid a) (PInt 0)),
      (''notes'', arg_or (a_notes a) PNone),
      (''terms'', arg_or (a_terms a) PNone),
      (''template'', PDict tmpl),
      (''from'', a_sender a)]"

fun is_obj :: "pyval \<Rightarrow> bool" where
  "is_obj (PObj c d) = True"
| "is_obj v = False"

fun unwrap :: "pyval \<Rightarrow> pyval" where
  "unwrap (PObj c d) = PDict d"
| "unwrap v = v"

definition item_json :: "pyval \<times> pyval \<times> pyval \<times> pyval \<Rightarrow> pyval" where
  "item_json = (\<lambda>(name, quantity, unit_cost, descr).
     PDict [(''name'', name), (''quantity'', quantity), (''unit_cost'', unit_cost),
            (''description'', descr)])"

definition custom_field_json :: "pyval \<times> pyval \<Rightarrow> pyval" where
  "custom_field_json = (\<lambda>(name, val). PDict [(''name'', name), (''value'', val)])"

definition default_fields :: pyval where
  "default_fields =
     PDict [(''tax'', PStr ''%''), (''discounts'', PBool False), (''shipping'', PBool False)]"

text \<open>The year, month and day of a date or datetime.\<close>

fun ymd_of :: "pyval \<Rightarrow> (nat \<times> nat \<times> nat) option" where
  "ymd_of (PDate y m d) = Some (y, m, d)"
| "ymd_of (PDateTime (y, m, d, t)) = Some (y, m, d)"
| "ymd_of v = None"

definition items_of :: "call list \<Rightarrow> pyval list" where
  "items_of cs = map (\<lambda>(n, q, u, d). Item_init n q u d) (item_args cs)"

definition custom_fields_of :: "call list \<Rightarrow> pyval list" where
  "custom_fields_of cs = map (\<lambda>(n, v). CustomField_init n v) (custom_field_args cs)"

text \<open>
  The dictionary that \<open>_to_json\<close> leaves behind and dumps, for an invoice built by the
  constructor and a sequence of calls: the template entries merged in, \<open>template\<close>
  removed.
\<close>

definition wire :: "init_args \<Rightarrow> call list \<Rightarrow> pyval \<Rightarrow> pyval \<Rightarrow> pydict" where
  "wire a cs dt due =
     AList.delete ''template''
       (fold (\<lambda>(k, v). AList.update k v) (template_after cs [])
          (rewritten a (map item_json (item_args cs))
             (map custom_field_json (custom_field_args cs))
             (fields_after cs default_fields) (template_after cs []) dt due))"

section \<open>Concrete surroundings and inputs\<close>

text \<open>
  The abbreviated month names of the locale \<open>en_US\<close> in the locale data of the C
  library, and those of \<open>it_IT\<close> for a process that starts in another locale.
\<close>

definition en_US_abmon :: "string list" where
  "en_US_abmon = [''Jan'', ''Feb'', ''Mar'', ''Apr'', ''May'', ''Jun'',
                  ''Jul'', ''Aug'', ''Sep'', ''Oct'', ''Nov'', ''Dec'']"

definition it_IT_abmon :: "string list" where
  "it_IT_abmon = [''gen'', ''feb'', ''mar'', ''apr'', ''mag'', ''giu'',
                  ''lug'', ''ago'', ''set'', ''ott'', ''nov'', ''dic'']"

text \<open>A machine with the three locales installed, the process running in the Italian one.\<close>

definition ex_world :: world where
  "ex_world = \<lparr>locale_db = [(''C'', en_US_abmon), (''en_US.utf8'', en_US_abmon),
                             (''it_IT.utf8'', it_IT_abmon)],
               lc_time = it_IT_abmon, files = Map.empty, posted = []\<rparr>"

text \<open>A machine on which \<open>en_US.utf8\<close> is not installed.\<close>

definition ex_world_bare :: world where
  "ex_world_bare = \<lparr>locale_db = [(''C'', en_US_abmon)], lc_time = en_US_abmon,
                    files = Map.empty, posted = []\<rparr>"

definition ex_class :: invoice_class where
  "ex_class = define_InvoiceGenerator (2023, 12, 31, 7)"

definition ex_args :: init_args where
  "ex_args = \<lparr>a_sender = PStr ''Acme'', a_to = PStr ''Bob'', a_logo = None, a_ship_to = None,
              a_number = None, a_payments_terms = None, a_due_date = Some (PDate 2024 2 9),
              a_notes = None, a_terms = None, a_currency = None,
              a_date = Some (PDate 2024 1 5), a_discounts = None, a_tax = None,
              a_shipping = None, a_amount_paid = None\<rparr>"

definition ex_args_no_date :: init_args where
  "ex_args_no_date = ex_args\<lparr>a_date := None, a_due_date := None\<rparr>"

definition ex_calls :: "call list" where
  "ex_calls =
     [AddItem (Some (PStr ''Widget'')) (Some (PInt (- 2))) (Some (PFloat (Finite 0))) None,
      SetTemplateText (PStr ''header'') (PStr ''BILL''),
      SetTemplateText (PStr ''sender'') (PStr ''Mallory''),
      AddCustomField (Some (PStr ''PO'')) (Some (PStr ''17'')),
      ToggleSubtotal None (Some (PBool True)) None,
      AddItem (Some (PStr ''Gadget'')) (Some (PInt 3)) (Some (PInt 10)) (Some (PStr ''blue''))]"

definition ex_invoice :: pydict where
  "ex_invoice = after_calls ex_calls (InvoiceGenerator_init ex_class ex_args)"

text \<open>A service that answers 200 with a four-byte body, and one that answers 404.\<close>

definition ex_server_ok :: server where
  "ex_server_ok = (\<lambda>history body.
     Inr \<lparr>status_code = 200, content = [37, 80, 68, 70], json_body = Inl JSONDecodeError\<rparr>)"

definition ex_server_404 :: server where
  "ex_server_404 = (\<lambda>history body.
     Inr \<lparr>status_code = 404, content = [],
          json_body = Inr (PDict [(''error'', PStr ''bad request'')])\<rparr>)"

text \<open>The two parsers on the strings of the records below, as Python reads them.\<close>

definition ex_parsers :: parsers where
  "ex_parsers =
     \<lparr>strptime = (\<lambda>s. if s = ''01-05-2024'' then Inr (2024, 1, 5)
                       else if s = ''01-06-2024'' then Inr (2024, 1, 6)
                       else if s = ''01-07-2024'' then Inr (2024, 1, 7)
                       else Inl (ValueError [Lit ''time data does not match format''])),
      float_of = (\<lambda>s. if s = ''100'' then Inr (Finite 100)
                       else if s = ''-50'' then Inr (Finite (- 50))
                       else if s = ''0'' then Inr (Finite 0)
                       else Inl (ValueError [Lit ''could not convert string to float'']))\<rparr>"

definition ex_record_A :: pydict where
  "ex_record_A = [(''Date (UTC)'', PStr ''01-05-2024''), (''Description'', PStr ''A''),
                  (''Amount'', PStr ''100'')]"

definition ex_record_B :: pydict where
  "ex_record_B = [(''Date (UTC)'', PStr ''01-06-2024''), (''Description'', PStr ''B''),
                  (''Amount'', PStr ''-50'')]"

definition ex_records :: "pydict list" where
  "ex_records = [ex_record_A, ex_record_B]"

definition ex_record_zero :: pydict where
  "ex_record_zero =
     [(''Date (UTC)'', PStr ''01-07-2024''), (''Description'', PStr ''C''),
      (''Amount'', PStr ''0'')]"

text \<open>
  A statement keeps the surroundings when it leaves the files, the requests sent and the
  locale database as they were.
\<close>

definition keeps :: "(pstate, 'a) prog \<Rightarrow> bool" where
  "keeps m \<longleftrightarrow> (\<forall>w d. files (fst (snd (m (w, d)))) = files w \<and>
                        posted (fst (snd (m (w, d)))) = posted w \<and>
                        locale_db (fst (snd (m (w, d)))) = locale_db w)"

text \<open>
  The constructor arguments and the single \<open>add_item\<close> call that the batch script uses
  for a row with a given description, date and amount.
\<close>

definition row_args :: "pyval \<Rightarrow> pyval \<Rightarrow> init_args" where
  "row_args desc dt =
     \<lparr>a_sender = PStr ''EA2 Consulting'', a_to = desc, a_logo = None, a_ship_to = None,
      a_number = None, a_payments_terms = None, a_due_date = None, a_notes = None,
      a_terms = None, a_currency = None, a_date = Some dt, a_discounts = None,
      a_tax = None, a_shipping = None, a_amount_paid = None\<rparr>"

definition row_call :: "pyval \<Rightarrow> call" where
  "row_call a = AddItem (Some (PStr ''Consultative services'')) (Some (PInt 1)) (Some a) None"

section \<open>Facts about the primitives\<close>

lemma obj_dict_unwrap: "is_obj x \<Longrightarrow> obj_dict x = Some (unwrap x)"
  by (cases x) auto

lemma flatten_loop_objs:
  "list_all is_obj (drop i xs) \<Longrightarrow>
   flatten_loop i xs = (Inr (), take i xs @ map unwrap (drop i xs))"
proof (induction i xs rule: flatten_loop.induct)
  case (1 i xs)
  show ?case
  proof (cases "i < length xs")
    case False
    then show ?thesis by (simp add: flatten_loop.simps)
  next
    case True
    then have dr: "drop i xs = xs ! i # drop (Suc i) xs"
      by (simp add: Cons_nth_drop_Suc)
    with "1.prems" have o: "is_obj (xs ! i)" and rest: "list_all is_obj (drop (Suc i) xs)"
      by simp_all
    have od: "obj_dict (xs ! i) = Some (unwrap (xs ! i))"
      using o by (rule obj_dict_unwrap)
    have "flatten_loop (Suc i) (xs[i := unwrap (xs ! i)]) =
          (Inr (), take (Suc i) (xs[i := unwrap (xs ! i)]) @
                   map unwrap (drop (Suc i) (xs[i := unwrap (xs ! i)])))"
      using "1.IH"[OF True od] rest by simp
    also have "take (Suc i) (xs[i := unwrap (xs ! i)]) = take i xs @ [unwrap (xs ! i)]"
      using True by (simp add: take_Suc_conv_app_nth)
    finally show ?thesis
      using True od dr by (subst flatten_loop.simps) simp
  qed
qed

lemma flatten_loop_all: "list_all is_obj xs \<Longrightarrow> flatten_loop 0 xs = (Inr (), map unwrap xs)"
  using flatten_loop_objs[of 0 xs] by simp

lemmas prim_defs = bind_def ret_def raise_def od_get_def od_getitem_def getattr_self_def
  od_setitem_def od_pop_def setlocale_def strftime_def flatten_def dict_items_def merge_items_def
  dumps_self_def json_dumps_def

lemma to_json_invoice:
  assumes ok: "to_json (w, invoice_of cls a items cfs flds tmpl) = (Inr j, (w', s'))"
    and items: "list_all is_obj items" and cfs: "list_all is_obj cfs"
  shows "\<exists>tbl ds due.
      map_of (locale_db w) LOCALE = Some tbl \<and>
      strftime_of tbl DATE_FORMAT (arg_or (a_date a) (default_date cls)) = Some ds \<and>
      (if arg_or (a_due_date a) PNone = PNone then due = PNone
       else \<exists>s. strftime_of tbl DATE_FORMAT (arg_or (a_due_date a) PNone) = Some s \<and> due = PStr s) \<and>
      w' = w\<lparr>lc_time := tbl\<rparr> \<and>
      s' = AList.delete ''template'' (fold (\<lambda>(k, v). AList.update k v) tmpl
             (rewritten a (map unwrap items) (map unwrap cfs) flds tmpl (PStr ds) due)) \<and>
      j = PDict s' \<and> json_serializable (PDict s')"
  using ok
  by (auto simp: to_json_def prim_defs invoice_of_def rewritten_def flatten_loop_all[OF items]
      flatten_loop_all[OF cfs] split: option.splits if_splits)

lemma init_invoice_of:
  "InvoiceGenerator_init cls a = invoice_of cls a [] [] default_fields []"
  by (simp add: InvoiceGenerator_init_def invoice_of_def default_fields_def)

lemma exec_call_invoice_of:
  "snd (exec_call c (invoice_of cls a items cfs flds tmpl)) =
   invoice_of cls a (items @ items_of [c]) (cfs @ custom_fields_of [c])
     (fields_after [c] flds) (template_after [c] tmpl)"
proof (cases c)
  case (SetTemplateText k v)
  then show ?thesis
    by (cases k) (simp_all add: items_of_def custom_fields_of_def set_template_text_def
        attr_setitem_def raise_def invoice_of_def)
qed (simp_all add: items_of_def custom_fields_of_def add_item_def add_custom_field_def
      attr_append_def toggle_subtotal_def invoice_of_def)

lemma items_of_Cons: "items_of (c # cs) = items_of [c] @ items_of cs"
  by (cases c) (simp_all add: items_of_def)

lemma custom_fields_of_Cons: "custom_fields_of (c # cs) = custom_fields_of [c] @ custom_fields_of cs"
  by (cases c) (simp_all add: custom_fields_of_def)

lemma fields_after_Cons: "fields_after (c # cs) flds = fields_after cs (fields_after [c] flds)"
  by (cases c) simp_all

lemma template_after_Cons: "template_after (c # cs) t = template_after cs (template_after [c] t)"
proof (cases c)
  case (SetTemplateText k v)
  then show ?thesis by (cases k) simp_all
qed simp_all

lemma after_calls_invoice_of:
  "after_calls cs (invoice_of cls a items cfs flds tmpl) =
   invoice_of cls a (items @ items_of cs) (cfs @ custom_fields_of cs)
     (fields_after cs flds) (template_after cs tmpl)"
proof (induction cs arbitrary: items cfs flds tmpl)
  case Nil
  show ?case by (simp add: after_calls_def items_of_def custom_fields_of_def)
next
  case (Cons c cs)
  have "after_calls (c # cs) (invoice_of cls a items cfs flds tmpl) =
        after_calls cs (snd (exec_call c (invoice_of cls a items cfs flds tmpl)))"
    by (simp add: after_calls_def)
  also have "\<dots> = invoice_of cls a ((items @ items_of [c]) @ items_of cs)
       ((cfs @ custom_fields_of [c]) @ custom_fields_of cs)
       (fields_after cs (fields_after [c] flds)) (template_after cs (template_after [c] tmpl))"
    by (simp only: exec_call_invoice_of Cons.IH)
  finally show ?case
    by (simp add: items_of_Cons[of c cs] custom_fields_of_Cons[of c cs]
        fields_after_Cons[of c cs] template_after_Cons[of c cs])
qed

lemma reachable_shape:
  "after_calls cs (InvoiceGenerator_init cls a) =
   invoice_of cls a (items_of cs) (custom_fields_of cs)
     (fields_after cs default_fields) (template_after cs [])"
  by (simp add: init_invoice_of after_calls_invoice_of)

lemma items_of_objs: "list_all is_obj (items_of cs)"
  by (simp add: items_of_def list_all_iff Item_init_def split: prod.splits)

lemma custom_fields_of_objs: "list_all is_obj (custom_fields_of cs)"
  by (simp add: custom_fields_of_def list_all_iff CustomField_init_def split: prod.splits)

lemma unwrap_items_of: "map unwrap (items_of cs) = map item_json (item_args cs)"
  by (simp add: items_of_def item_json_def Item_init_def split: prod.splits)

lemma unwrap_custom_fields_of:
  "map unwrap (custom_fields_of cs) = map custom_field_json (custom_field_args cs)"
  by (simp add: custom_fields_of_def custom_field_json_def CustomField_init_def split: prod.splits)

lemma template_after_keys:
  "fst ` set (template_after cs t) \<subseteq> fst ` set t \<union> set TEMPLATE_PARAMETERS"
proof (induction cs t rule: template_after.induct)
  case (2 k v cs t)
  show ?case
  proof (cases "k \<in> set TEMPLATE_PARAMETERS")
    case True
    with 2 have "fst ` set (template_after cs (AList.update k v t))
        \<subseteq> fst ` set (AList.update k v t) \<union> set TEMPLATE_PARAMETERS"
      by simp
    also have "\<dots> \<subseteq> fst ` set t \<union> set TEMPLATE_PARAMETERS"
      using True by (auto simp: dom_update)
    finally show ?thesis using True by simp
  next
    case False
    with 2 show ?thesis by simp
  qed
qed simp_all

lemma template_after_distinct:
  "distinct (map fst t) \<Longrightarrow> distinct (map fst (template_after cs t))"
  by (induction cs t rule: template_after.induct) (simp_all add: distinct_update)

lemma fold_update_other:
  "k \<notin> fst ` set t \<Longrightarrow> map_of (fold (\<lambda>(k, v). AList.update k v) t d) k = map_of d k"
  by (induction t arbitrary: d) (auto simp: update_conv')

lemma fold_update_key:
  "distinct (map fst t) \<Longrightarrow> map_of t k = Some v \<Longrightarrow>
   map_of (fold (\<lambda>(k, v). AList.update k v) t d) k = Some v"
proof (induction t arbitrary: d)
  case Nil
  then show ?case by simp
next
  case (Cons p t)
  obtain k' v' where p: "p = (k', v')" by (cases p)
  show ?case
  proof (cases "k' = k")
    case True
    with Cons.prems p have "v' = v" and "k \<notin> fst ` set t" by auto
    then show ?thesis using p True by (simp add: fold_update_other update_conv')
  next
    case False
    with Cons p show ?thesis by simp
  qed
qed

lemma template_keys_allowed: "fst ` set (template_after cs []) \<subseteq> set TEMPLATE_PARAMETERS"
  using template_after_keys[of cs "[]"] by simp

lemma template_distinct: "distinct (map fst (template_after cs []))"
  by (rule template_after_distinct) simp

lemma to_json_reachable:
  assumes "to_json (w, after_calls cs (InvoiceGenerator_init cls a)) = (Inr j, (w', s'))"
  shows "\<exists>tbl ds due.
      map_of (locale_db w) LOCALE = Some tbl \<and>
      strftime_of tbl DATE_FORMAT (arg_or (a_date a) (default_date cls)) = Some ds \<and>
      (if arg_or (a_due_date a) PNone = PNone then due = PNone
       else \<exists>s. strftime_of tbl DATE_FORMAT (arg_or (a_due_date a) PNone) = Some s \<and> due = PStr s) \<and>
      w' = w\<lparr>lc_time := tbl\<rparr> \<and> s' = wire a cs (PStr ds) due \<and>
      j = PDict s' \<and> json_serializable (PDict s')"
  using to_json_invoice[OF assms[unfolded reachable_shape] items_of_objs custom_fields_of_objs]
  unfolding wire_def unwrap_items_of unwrap_custom_fields_of .

lemma wire_fixed:
  assumes "k \<notin> set TEMPLATE_PARAMETERS" "k \<noteq> ''template''"
  shows "map_of (wire a cs dt due) k =
         map_of (rewritten a (map item_json (item_args cs))
             (map custom_field_json (custom_field_args cs))
             (fields_after cs default_fields) (template_after cs []) dt due) k"
proof -
  have "k \<notin> fst ` set (template_after cs [])"
    using assms(1) template_keys_allowed[of cs] by blast
  then show ?thesis
    using assms(2) by (simp add: wire_def fold_update_other)
qed

lemma wire_template:
  assumes "map_of (template_after cs []) k = Some v"
  shows "map_of (wire a cs dt due) k = Some v"
proof -
  have "k \<in> fst ` set (template_after cs [])"
    using assms by (metis map_of_eq_None_iff option.distinct(1))
  then have "k \<in> set TEMPLATE_PARAMETERS"
    using template_keys_allowed[of cs] by blast
  then have "k \<noteq> ''template''"
    by (auto simp: TEMPLATE_PARAMETERS_def)
  then show ?thesis
    using assms by (simp add: wire_def fold_update_key template_distinct)
qed

lemma wire_no_template: "map_of (wire a cs dt due) ''template'' = None"
  by (simp add: wire_def delete_conv')

lemma wire_entries:
  "map_of (wire a cs dt due) ''sender'' = None"
  "map_of (wire a cs dt due) ''from'' = Some (a_sender a)"
  "map_of (wire a cs dt due) ''date'' = Some dt"
  "map_of (wire a cs dt due) ''due_date'' = Some due"
  "map_of (wire a cs dt due) ''items'' = Some (PList (map item_json (item_args cs)))"
  "map_of (wire a cs dt due) ''custom_fields'' =
     Some (PList (map custom_field_json (custom_field_args cs)))"
  "map_of (wire a cs dt due) ''to'' = Some (a_to a)"
  by (simp_all add: wire_fixed TEMPLATE_PARAMETERS_def rewritten_def)

lemma reachable_entries:
  "map_of (after_calls cs (InvoiceGenerator_init cls a)) ''sender'' = Some (a_sender a)"
  "map_of (after_calls cs (InvoiceGenerator_init cls a)) ''template'' =
     Some (PDict (template_after cs []))"
  "map_of (after_calls cs (InvoiceGenerator_init cls a)) ''date'' =
     Some (arg_or (a_date a) (default_date cls))"
  "map_of (after_calls cs (InvoiceGenerator_init cls a)) ''due_date'' =
     Some (arg_or (a_due_date a) PNone)"
  "map_of (after_calls cs (InvoiceGenerator_init cls a)) ''items'' = Some (PList (items_of cs))"
  by (simp_all add: reachable_shape invoice_of_def)

lemma result_collapse:
  "\<not> isl (fst r) \<Longrightarrow> r = (Inr (projr (fst r)), fst (snd r), snd (snd r))"
  by (cases r, cases "fst r") auto

lemma keeps_bind: "keeps m \<Longrightarrow> (\<And>x. keeps (f x)) \<Longrightarrow> keeps (bind m f)"
  unfolding keeps_def bind_def
  by (auto split: prod.splits sum.splits) (metis fst_conv snd_conv)+

lemma keeps_prims:
  "keeps (ret x)" "keeps (raise e)" "keeps (od_get k)" "keeps (od_getitem k)"
  "keeps (getattr_self k)" "keeps (od_setitem k v)" "keeps (od_pop k)"
  "keeps (setlocale n)" "keeps (strftime v fmt)" "keeps (merge_items kvs)" "keeps dumps_self"
  by (auto simp: keeps_def prim_defs split: option.splits)

lemma keeps_flatten: "keeps (flatten k)"
  by (auto simp: keeps_def flatten_def split: option.splits pyval.splits prod.splits)

lemma keeps_dict_items: "keeps (dict_items v)"
  by (cases v) (simp_all add: dict_items_def keeps_prims)

lemma keeps_to_json: "keeps to_json"
  unfolding to_json_def
  by (intro keeps_bind keeps_prims keeps_flatten keeps_dict_items) (simp_all add: keeps_prims keeps_bind)

lemma to_json_world:
  assumes "to_json (w, s) = (r, (w', s'))"
  shows "files w' = files w" "posted w' = posted w" "locale_db w' = locale_db w"
  using keeps_to_json assms unfolding keeps_def
  by (metis fst_conv snd_conv)+


lemma render_parts_sublist:
  assumes "Val v \<in> set ps"
  shows "sublist (str v) (render str ps)"
proof -
  from assms obtain as bs where "ps = as @ Val v # bs"
    by (auto simp: in_set_conv_decomp)
  then have "render str ps = render str as @ str v @ render str bs"
    by (simp add: render_def)
  then show ?thesis
    by (simp only: sublist_appendI)
qed

lemma format_DATE_FORMAT:
  "format_date tbl y m d DATE_FORMAT = pad2 d @ '' '' @ tbl ! (m - 1) @ '' '' @ pad4 y"
  by (simp add: DATE_FORMAT_def directive_def)

lemma strftime_of_ymd:
  "ymd_of v = Some (y, m, d) \<Longrightarrow>
   strftime_of tbl DATE_FORMAT v = Some (pad2 d @ '' '' @ tbl ! (m - 1) @ '' '' @ pad4 y)"
  by (cases v) (auto simp: format_DATE_FORMAT)

lemma digit_is_digit: "digit n \<in> set ''0123456789''"
proof -
  have "n mod 10 < length ''0123456789''" by simp
  then show ?thesis unfolding digit_def by (rule nth_mem)
qed

lemma en_US_abmon_length:
  assumes "1 \<le> m" "m \<le> 12"
  shows "length (en_US_abmon ! (m - 1)) = 3"
proof -
  have "list_all (\<lambda>s. length s = 3) en_US_abmon"
    by (simp add: en_US_abmon_def)
  moreover have "m - 1 < length en_US_abmon"
    using assms by (simp add: en_US_abmon_def)
  ultimately show ?thesis
    by (simp add: list_all_length)
qed

lemma pad_digits:
  "set (pad2 n) \<subseteq> set ''0123456789''" "set (pad4 n) \<subseteq> set ''0123456789''"
  using digit_is_digit[of n] digit_is_digit[of "n div 10"] digit_is_digit[of "n div 100"]
    digit_is_digit[of "n div 1000"]
  by (auto simp: pad2_def pad4_def)

lemma setlocale_missing:
  "map_of (locale_db w) LOCALE = None \<Longrightarrow> to_json (w, s) = (Inl LocaleError, (w, s))"
  by (simp add: to_json_def bind_def setlocale_def)

lemma second_to_json:
  assumes "map_of (locale_db w) LOCALE = Some tbl"
  shows "fst (to_json (w, wire a cs (PStr ds) due)) = Inl (AttributeError ''strftime'')"
  using assms
  by (simp add: to_json_def prim_defs wire_entries update_conv')

lemma fold_template_keeps_template:
  "map_of (fold (\<lambda>(k, v). AList.update k v) (template_after cs []) d) ''template'' =
   map_of d ''template''"
proof -
  have "''template'' \<notin> set TEMPLATE_PARAMETERS"
    by (simp add: TEMPLATE_PARAMETERS_def)
  then have "''template'' \<notin> fst ` set (template_after cs [])"
    using template_keys_allowed[of cs] by blast
  then show ?thesis
    by (rule fold_update_other)
qed

lemma to_json_returns:
  assumes db: "map_of (locale_db w) LOCALE = Some tbl"
    and ds: "strftime_of tbl DATE_FORMAT (arg_or (a_date a) (default_date cls)) = Some ds"
    and due: "arg_or (a_due_date a) PNone = PNone \<and> due = PNone \<or>
              (\<exists>s. strftime_of tbl DATE_FORMAT (arg_or (a_due_date a) PNone) = Some s \<and> due = PStr s)"
    and ser: "json_serializable (PDict (wire a cs (PStr ds) due))"
  shows "to_json (w, after_calls cs (InvoiceGenerator_init cls a)) =
         (Inr (PDict (wire a cs (PStr ds) due)), (w\<lparr>lc_time := tbl\<rparr>, wire a cs (PStr ds) due))"
proof -
  have ne: "\<And>s. strftime_of tbl DATE_FORMAT (arg_or (a_due_date a) PNone) = Some s \<Longrightarrow>
                arg_or (a_due_date a) PNone \<noteq> PNone"
    by auto
  show ?thesis
    using db ds due ser ne
    unfolding reachable_shape wire_def unwrap_items_of[symmetric] unwrap_custom_fields_of[symmetric]
    by (auto simp: to_json_def prim_defs invoice_of_def rewritten_def
        fold_template_keeps_template flatten_loop_all[OF items_of_objs] flatten_loop_all[OF custom_fields_of_objs])
qed

lemma download_posts:
  assumes "to_json (w, s) = (Inr js, (w1, s1))"
  shows "posted (fst (snd (download srv file_path (w, s)))) = posted w @ [js]"
proof -
  have p1: "posted w1 = posted w"
    using to_json_world[OF assms] by simp
  show ?thesis
    using assms p1
    by (auto simp: download_def bind_def requests_post_def json_loads_def write_file_def
        response_json_def raise_def ret_def split: sum.splits)
qed

lemma clean_Inr:
  assumes "clean P rec = Inr row"
  shows "\<exists>y m d f. map_of row date_key = Some (PDate y m d) \<and>
           map_of row amount = Some (PFloat f) \<and>
           map_of row description = map_of rec description"
  using assms
  by (auto simp: clean_def row_getitem_def parse_date_def parse_float_def update_conv'
      date_key_def amount_def description_def
      split: option.splits sum.splits pyval.splits prod.splits)


lemma row_invoice:
  "add_item (Some (PStr ''Consultative services'')) (Some (PInt 1)) (Some a) None
     (new_invoice cls desc dt) =
   (Inr (), after_calls [row_call a] (InvoiceGenerator_init cls (row_args desc dt)))"
  by (simp add: new_invoice_def row_args_def row_call_def after_calls_def add_item_def
      attr_append_def InvoiceGenerator_init_def)

lemma row_to_json:
  assumes db: "map_of (locale_db w) LOCALE = Some tbl"
    and ser: "json_serializable desc"
  shows "to_json (w, after_calls [row_call (PFloat f)]
                      (InvoiceGenerator_init cls (row_args desc (PDate y m d)))) =
         (Inr (PDict (wire (row_args desc (PDate y m d)) [row_call (PFloat f)]
                        (PStr (format_date tbl y m d DATE_FORMAT)) PNone)),
          (w\<lparr>lc_time := tbl\<rparr>,
           wire (row_args desc (PDate y m d)) [row_call (PFloat f)]
             (PStr (format_date tbl y m d DATE_FORMAT)) PNone))"
proof (rule to_json_returns[OF db])
  show "strftime_of tbl DATE_FORMAT
          (arg_or (a_date (row_args desc (PDate y m d))) (default_date cls)) =
        Some (format_date tbl y m d DATE_FORMAT)"
    by (simp add: row_args_def arg_or_def)
  show "arg_or (a_due_date (row_args desc (PDate y m d))) PNone = PNone \<and> PNone = PNone \<or>
        (\<exists>s. strftime_of tbl DATE_FORMAT (arg_or (a_due_date (row_args desc (PDate y m d))) PNone)
               = Some s \<and> PNone = PStr s)"
    by (simp add: row_args_def arg_or_def)
  show "json_serializable (PDict (wire (row_args desc (PDate y m d)) [row_call (PFloat f)]
          (PStr (format_date tbl y m d DATE_FORMAT)) PNone))"
    using ser
    by (simp add: wire_def rewritten_def row_args_def row_call_def arg_or_def item_json_def
        default_fields_def)
qed

section \<open>The claims\<close>

text \<open>
  C1. For every invoice built by the constructor and the mutators, when serialization
  returns a JSON object, that object has no field \<open>sender\<close> and no field \<open>template\<close>,
  it has a field \<open>from\<close> equal to the sender of the invoice, and every key of the stored
  template mapping is a top-level field of the object with the stored value.
\<close>

theorem serialized_fields:
  assumes "to_json (w, after_calls cs (InvoiceGenerator_init cls a)) = (Inr j, st)"
  shows "\<exists>W. j = PDict W \<and> map_of W ''sender'' = None \<and> map_of W ''template'' = None \<and>
             map_of W ''from'' = Some (a_sender a) \<and>
             map_of (after_calls cs (InvoiceGenerator_init cls a)) ''sender'' = Some (a_sender a) \<and>
             (\<forall>t k v. map_of (after_calls cs (InvoiceGenerator_init cls a)) ''template'' = Some (PDict t)
                \<longrightarrow> map_of t k = Some v \<longrightarrow> map_of W k = Some v)"
proof -
  obtain w' s' where st: "st = (w', s')" by (cases st)
  from to_json_reachable[OF assms[unfolded st]]
  obtain ds due where j: "j = PDict (wire a cs (PStr ds) due)" by blast
  show ?thesis
    by (simp add: j wire_entries wire_no_template reachable_entries wire_template)
qed


theorem serialized_fields_witness:
  "\<not> isl (fst (to_json (ex_world, ex_invoice))) \<and>
   (\<exists>W. projr (fst (to_json (ex_world, ex_invoice))) = PDict W \<and>
        map_of W ''sender'' = None \<and> map_of W ''template'' = None \<and>
        map_of W ''from'' = Some (PStr ''Acme'') \<and> map_of W ''header'' = Some (PStr ''BILL''))"
proof -
  have ok: "\<not> isl (fst (to_json (ex_world, ex_invoice)))"
    by code_simp
  have tm: "map_of ex_invoice ''template'' = Some (PDict [(''header'', PStr ''BILL'')])"
    by code_simp
  from serialized_fields[OF result_collapse[OF ok, unfolded ex_invoice_def]] tm ok
  show ?thesis
    by (auto simp: ex_invoice_def ex_args_def)
qed

text \<open>
  C2. A key outside the allow-list of 21 template parameters makes \<open>set_template_text\<close>
  raise \<open>ValueError\<close> with a message in which the key is interpolated, on any state
  whatever, and the state is left as it was. A key of the allow-list makes the call
  succeed on every invoice built by the constructor and the mutators: the value is stored
  under the key in the template mapping, and no other attribute changes.
\<close>

theorem set_template_text_checks_key:
  "(template_parameter \<notin> PStr ` set TEMPLATE_PARAMETERS \<longrightarrow>
      set_template_text template_parameter val s =
        (Inl (ValueError [Lit ''The parameter '', Val template_parameter,
                          Lit '' is not a valid template parameter. See docs.'']), s) \<and>
      (\<forall>str. sublist (str template_parameter)
         (render str [Lit ''The parameter '', Val template_parameter,
                      Lit '' is not a valid template parameter. See docs.''])))
   \<and> (k \<in> set TEMPLATE_PARAMETERS \<longrightarrow>
      (\<exists>t s'. map_of (after_calls cs (InvoiceGenerator_init cls a)) ''template'' =
                Some (PDict t) \<and>
              set_template_text (PStr k) v (after_calls cs (InvoiceGenerator_init cls a)) =
                (Inr (), s') \<and>
              map_of s' ''template'' = Some (PDict (AList.update k v t)) \<and>
              map_of (AList.update k v t) = (map_of t)(k \<mapsto> v) \<and>
              (\<forall>x. x \<noteq> ''template'' \<longrightarrow>
                   map_of s' x = map_of (after_calls cs (InvoiceGenerator_init cls a)) x)))
   \<and> length TEMPLATE_PARAMETERS = 21"
proof (intro conjI impI allI)
  assume "template_parameter \<notin> PStr ` set TEMPLATE_PARAMETERS"
  then show "set_template_text template_parameter val s =
        (Inl (ValueError [Lit ''The parameter '', Val template_parameter,
                          Lit '' is not a valid template parameter. See docs.'']), s)"
    by (cases template_parameter)
       (auto simp: set_template_text_def raise_def invalid_parameter_def)
next
  fix str :: "pyval \<Rightarrow> string"
  show "sublist (str template_parameter)
         (render str [Lit ''The parameter '', Val template_parameter,
                      Lit '' is not a valid template parameter. See docs.''])"
    by (rule render_parts_sublist) simp
next
  assume k: "k \<in> set TEMPLATE_PARAMETERS"
  show "\<exists>t s'. map_of (after_calls cs (InvoiceGenerator_init cls a)) ''template'' =
                Some (PDict t) \<and>
              set_template_text (PStr k) v (after_calls cs (InvoiceGenerator_init cls a)) =
                (Inr (), s') \<and>
              map_of s' ''template'' = Some (PDict (AList.update k v t)) \<and>
              map_of (AList.update k v t) = (map_of t)(k \<mapsto> v) \<and>
              (\<forall>x. x \<noteq> ''template'' \<longrightarrow>
                   map_of s' x = map_of (after_calls cs (InvoiceGenerator_init cls a)) x)"
    using k
    by (simp add: set_template_text_def attr_setitem_def reachable_entries update_conv')
next
  show "length TEMPLATE_PARAMETERS = 21"
    by (simp add: TEMPLATE_PARAMETERS_def)
qed

theorem set_template_text_checks_key_witness:
  "PStr ''sender'' \<notin> PStr ` set TEMPLATE_PARAMETERS \<and>
   set_template_text (PStr ''sender'') (PStr ''Mallory'') ex_invoice =
     (Inl (ValueError [Lit ''The parameter '', Val (PStr ''sender''),
                       Lit '' is not a valid template parameter. See docs.'']), ex_invoice) \<and>
   ''notes_title'' \<in> set TEMPLATE_PARAMETERS \<and>
   map_of ex_invoice ''template'' = Some (PDict [(''header'', PStr ''BILL'')]) \<and>
   (\<exists>s'. set_template_text (PStr ''notes_title'') (PStr ''Remarks'') ex_invoice = (Inr (), s') \<and>
         map_of s' ''template'' =
           Some (PDict [(''header'', PStr ''BILL''), (''notes_title'', PStr ''Remarks'')]))"
proof -
  have a: "PStr ''sender'' \<notin> PStr ` set TEMPLATE_PARAMETERS"
    by (simp add: TEMPLATE_PARAMETERS_def image_iff)
  have b: "''notes_title'' \<in> set TEMPLATE_PARAMETERS"
    by (simp add: TEMPLATE_PARAMETERS_def)
  have t: "map_of ex_invoice ''template'' = Some (PDict [(''header'', PStr ''BILL'')])"
    by code_simp
  from set_template_text_checks_key[of "PStr ''sender''" "PStr ''Mallory''" ex_invoice
      "''notes_title''" ex_calls ex_class ex_args "PStr ''Remarks''", folded ex_invoice_def] a b t
  show ?thesis
    by auto
qed

text \<open>
  C5. For every invoice and every sequence of calls, when serialization returns a JSON
  object, its field \<open>items\<close> is an array with one entry for each \<open>add_item\<close> call, in
  the order of the calls, and the entry of a call holds the name, quantity, unit cost and
  description of that call (no check is made on the numbers).
\<close>

theorem items_serialized_in_order:
  assumes "to_json (w, after_calls cs (InvoiceGenerator_init cls a)) = (Inr j, st)"
  shows "\<exists>W xs. j = PDict W \<and> map_of W ''items'' = Some (PList xs) \<and>
           length xs = length (item_args cs) \<and> xs = map item_json (item_args cs)"
proof -
  obtain w' s' where st: "st = (w', s')" by (cases st)
  from to_json_reachable[OF assms[unfolded st]]
  obtain ds due where j: "j = PDict (wire a cs (PStr ds) due)" by blast
  show ?thesis
    by (simp add: j wire_entries)
qed

theorem items_serialized_in_order_witness:
  "\<not> isl (fst (to_json (ex_world, ex_invoice))) \<and>
   (\<exists>W. projr (fst (to_json (ex_world, ex_invoice))) = PDict W \<and>
        map_of W ''items'' = Some (PList
          [PDict [(''name'', PStr ''Widget''), (''quantity'', PInt (- 2)),
                  (''unit_cost'', PFloat (Finite 0)), (''description'', PNone)],
           PDict [(''name'', PStr ''Gadget''), (''quantity'', PInt 3),
                  (''unit_cost'', PInt 10), (''description'', PStr ''blue'')]]))"
proof -
  have ok: "\<not> isl (fst (to_json (ex_world, ex_invoice)))"
    by code_simp
  from items_serialized_in_order[OF result_collapse[OF ok, unfolded ex_invoice_def]] ok
  show ?thesis
    by (auto simp: ex_invoice_def ex_calls_def item_json_def arg_or_def)
qed

text \<open>
  C8. In every state reached from the constructor by any sequence of \<open>add_item\<close>,
  \<open>add_custom_field\<close>, \<open>set_template_text\<close> and \<open>toggle_subtotal\<close> calls, the keys
  of the stored template mapping are among the 21 template parameters.
\<close>

theorem template_keys_within_allow_list:
  "\<exists>t. map_of (after_calls cs (InvoiceGenerator_init cls a)) ''template'' = Some (PDict t) \<and>
       fst ` set t \<subseteq> set TEMPLATE_PARAMETERS \<and> length TEMPLATE_PARAMETERS = 21"
  by (simp add: reachable_entries template_keys_allowed) (simp add: TEMPLATE_PARAMETERS_def)

theorem template_keys_within_allow_list_witness:
  "\<exists>t. map_of ex_invoice ''template'' = Some (PDict t) \<and>
       fst ` set t \<subseteq> set TEMPLATE_PARAMETERS \<and> length TEMPLATE_PARAMETERS = 21"
  using template_keys_within_allow_list[of ex_calls ex_class ex_args]
  by (simp add: ex_invoice_def)

text \<open>
  C10. The default issue date is the value that the clock gave when the class was
  defined: two invoices constructed without a date carry that same value, whenever they
  are constructed (the constructor does not read the clock).
\<close>

theorem default_date_fixed_at_class_definition:
  assumes "a_date a1 = None" and "a_date a2 = None"
  shows "map_of (after_calls cs1 (InvoiceGenerator_init (define_InvoiceGenerator now) a1)) ''date''
           = Some (PDateTime now) \<and>
         map_of (after_calls cs2 (InvoiceGenerator_init (define_InvoiceGenerator now) a2)) ''date''
           = Some (PDateTime now)"
  using assms by (simp add: reachable_entries arg_or_def define_InvoiceGenerator_def)

theorem default_date_fixed_at_class_definition_witness:
  "a_date ex_args_no_date = None \<and>
   map_of (InvoiceGenerator_init ex_class ex_args_no_date) ''date''
     = Some (PDateTime (2023, 12, 31, 7)) \<and>
   map_of (InvoiceGenerator_init ex_class (ex_args_no_date\<lparr>a_to := PStr ''Carol''\<rparr>)) ''date''
     = Some (PDateTime (2023, 12, 31, 7))"
proof -
  have h1: "a_date ex_args_no_date = None"
    by (simp add: ex_args_no_date_def)
  have h2: "a_date (ex_args_no_date\<lparr>a_to := PStr ''Carol''\<rparr>) = None"
    by (simp add: ex_args_no_date_def)
  from default_date_fixed_at_class_definition[OF h1 h2, of "[]" "(2023, 12, 31, 7)" "[]"] h1
  show ?thesis
    by (simp add: after_calls_def ex_class_def)
qed

text \<open>
  C3. Once serialization has returned and the POST has brought back a response: with
  status 200 the call returns and the file at the given path holds exactly the bytes of
  the response, the other files being untouched; with any other status the call raises
  and no file is written, and when the body of the response parses as JSON the error is
  the exception whose message interpolates that parsed body and the status code, so both
  occur in the rendered message.
\<close>

theorem download_outcome:
  assumes tj: "to_json (w, s) = (Inr js, (w1, s1))"
    and post: "srv (posted w) js = Inr r"
  shows "(status_code r = 200 \<longrightarrow>
            (\<exists>w2. download srv file_path (w, s) = (Inr (), (w2, s1)) \<and>
                  files w2 = (files w)(file_path \<mapsto> content r)))
       \<and> (status_code r \<noteq> 200 \<longrightarrow>
            (\<exists>e w2. download srv file_path (w, s) = (Inl e, (w2, s1)) \<and> files w2 = files w \<and>
               (\<forall>body. json_body r = Inr body \<longrightarrow>
                  e = PyException
                        [Lit ''Invoice download request returned the following message:'',
                         Val body, Lit '' Response code = '', Val (PInt (status_code r)),
                         Lit '' ''] \<and>
                  (\<forall>str. sublist (str body)
                           (render str
                             [Lit ''Invoice download request returned the following message:'',
                              Val body, Lit '' Response code = '',
                              Val (PInt (status_code r)), Lit '' '']) \<and>
                         sublist (str (PInt (status_code r)))
                           (render str
                             [Lit ''Invoice download request returned the following message:'',
                              Val body, Lit '' Response code = '',
                              Val (PInt (status_code r)), Lit '' ''])))))"
proof -
  have f1: "files w1 = files w" and p1: "posted w1 = posted w"
    using to_json_world[OF tj] by simp_all
  have dl: "download srv file_path (w, s) =
        (if status_code r = 200 then write_file file_path (content r)
         else bind (response_json r) (\<lambda>body. raise (download_failed body (status_code r))))
          (w1\<lparr>posted := posted w1 @ [js]\<rparr>, s1)"
    using tj post p1
    by (simp add: download_def bind_def requests_post_def json_loads_def)
  show ?thesis
  proof (intro conjI impI)
    assume "status_code r = 200"
    then show "\<exists>w2. download srv file_path (w, s) = (Inr (), (w2, s1)) \<and>
                  files w2 = (files w)(file_path \<mapsto> content r)"
      using dl f1 by (simp add: write_file_def)
  next
    assume ne: "status_code r \<noteq> 200"
    show "\<exists>e w2. download srv file_path (w, s) = (Inl e, (w2, s1)) \<and> files w2 = files w \<and>
               (\<forall>body. json_body r = Inr body \<longrightarrow>
                  e = PyException
                        [Lit ''Invoice download request returned the following message:'',
                         Val body, Lit '' Response code = '', Val (PInt (status_code r)),
                         Lit '' ''] \<and>
                  (\<forall>str. sublist (str body)
                           (render str
                             [Lit ''Invoice download request returned the following message:'',
                              Val body, Lit '' Response code = '',
                              Val (PInt (status_code r)), Lit '' '']) \<and>
                         sublist (str (PInt (status_code r)))
                           (render str
                             [Lit ''Invoice download request returned the following message:'',
                              Val body, Lit '' Response code = '',
                              Val (PInt (status_code r)), Lit '' ''])))"
    proof (cases "json_body r")
      case (Inl e)
      then show ?thesis
        using dl ne f1 by (simp add: response_json_def bind_def raise_def)
    next
      case (Inr body)
      have "download srv file_path (w, s) =
            (Inl (download_failed body (status_code r)), (w1\<lparr>posted := posted w1 @ [js]\<rparr>, s1))"
        using dl ne Inr by (simp add: response_json_def bind_def raise_def ret_def)
      then show ?thesis
        using Inr f1
        by (simp add: download_failed_def render_parts_sublist)
    qed
  qed
qed

theorem download_outcome_witness:
  "\<not> isl (fst (to_json (ex_world, ex_invoice))) \<and>
   (\<exists>w2 s2. download ex_server_ok ''invoice.pdf'' (ex_world, ex_invoice) = (Inr (), (w2, s2)) \<and>
            files w2 ''invoice.pdf'' = Some [37, 80, 68, 70]) \<and>
   (\<exists>w2 s2. download ex_server_404 ''invoice.pdf'' (ex_world, ex_invoice) =
              (Inl (PyException
                     [Lit ''Invoice download request returned the following message:'',
                      Val (PDict [(''error'', PStr ''bad request'')]),
                      Lit '' Response code = '', Val (PInt 404), Lit '' '']), (w2, s2)) \<and>
            files w2 ''invoice.pdf'' = None)"
proof -
  have ok: "\<not> isl (fst (to_json (ex_world, ex_invoice)))"
    by code_simp
  note tj = result_collapse[OF ok]
  have p200: "ex_server_ok (posted ex_world) (projr (fst (to_json (ex_world, ex_invoice)))) =
      Inr \<lparr>status_code = 200, content = [37, 80, 68, 70], json_body = Inl JSONDecodeError\<rparr>"
    by (simp add: ex_server_ok_def)
  have p404: "ex_server_404 (posted ex_world) (projr (fst (to_json (ex_world, ex_invoice)))) =
      Inr \<lparr>status_code = 404, content = [],
           json_body = Inr (PDict [(''error'', PStr ''bad request'')])\<rparr>"
    by (simp add: ex_server_404_def)
  from download_outcome[where srv = ex_server_ok and file_path = "''invoice.pdf''", OF tj p200]
       download_outcome[where srv = ex_server_404 and file_path = "''invoice.pdf''", OF tj p404]
       ok
  show ?thesis
    by (auto simp: ex_world_def)
qed

text \<open>
  C4, as the code has it. The date strings come from \<open>strftime\<close> under the locale
  that \<open>_to_json\<close> itself installs with \<open>setlocale\<close>. When \<open>en_US.utf8\<close> is not
  available, serialization raises \<open>locale.Error\<close> before anything else and no date
  string is produced. When serialization returns, the issue date, and the due date when
  there is one, read: the day in two digits, a space, the abbreviated name of the month
  in the table of \<open>en_US.utf8\<close>, a space, the year in four digits; this holds whatever
  locale the process was in before the call, and the call leaves the process in
  \<open>en_US.utf8\<close>. With the English table the month has three letters. The year follows
  the documented \<open>%Y\<close>, padded with zeros to four digits.
\<close>

theorem date_strings_from_en_US_locale:
  "(map_of (locale_db w0) LOCALE = None \<longrightarrow> to_json (w0, s0) = (Inl LocaleError, (w0, s0)))
   \<and> (to_json (w, after_calls cs (InvoiceGenerator_init cls a)) = (Inr j, (w', s')) \<longrightarrow>
       (\<exists>tbl W. map_of (locale_db w) LOCALE = Some tbl \<and> lc_time w' = tbl \<and> j = PDict W \<and>
          (\<forall>y m d. ymd_of (arg_or (a_date a) (default_date cls)) = Some (y, m, d) \<longrightarrow>
             map_of W ''date'' = Some (PStr (pad2 d @ '' '' @ tbl ! (m - 1) @ '' '' @ pad4 y))) \<and>
          (\<forall>y m d. ymd_of (arg_or (a_due_date a) PNone) = Some (y, m, d) \<longrightarrow>
             map_of W ''due_date'' = Some (PStr (pad2 d @ '' '' @ tbl ! (m - 1) @ '' '' @ pad4 y))) \<and>
          (arg_or (a_due_date a) PNone = PNone \<longrightarrow> map_of W ''due_date'' = Some PNone)))
   \<and> length (pad2 n) = 2 \<and> set (pad2 n) \<subseteq> set ''0123456789''
   \<and> length (pad4 n) = 4 \<and> set (pad4 n) \<subseteq> set ''0123456789''
   \<and> (1 \<le> k \<and> k \<le> 12 \<longrightarrow> length (en_US_abmon ! (k - 1)) = 3)"
proof (intro conjI impI)
  assume "map_of (locale_db w0) LOCALE = None"
  then show "to_json (w0, s0) = (Inl LocaleError, (w0, s0))"
    by (rule setlocale_missing)
next
  assume tj: "to_json (w, after_calls cs (InvoiceGenerator_init cls a)) = (Inr j, (w', s'))"
  from to_json_reachable[OF tj]
  obtain tbl ds due where db: "map_of (locale_db w) LOCALE = Some tbl"
    and ds: "strftime_of tbl DATE_FORMAT (arg_or (a_date a) (default_date cls)) = Some ds"
    and due: "if arg_or (a_due_date a) PNone = PNone then due = PNone
              else \<exists>s. strftime_of tbl DATE_FORMAT (arg_or (a_due_date a) PNone) = Some s \<and>
                       due = PStr s"
    and w': "w' = w\<lparr>lc_time := tbl\<rparr>" and j: "j = PDict (wire a cs (PStr ds) due)"
    by blast
  have d1: "\<forall>y m d. ymd_of (arg_or (a_date a) (default_date cls)) = Some (y, m, d) \<longrightarrow>
      map_of (wire a cs (PStr ds) due) ''date'' =
        Some (PStr (pad2 d @ '' '' @ tbl ! (m - 1) @ '' '' @ pad4 y))"
    using ds by (auto simp: wire_entries dest: strftime_of_ymd[where tbl = tbl])
  have d2: "\<forall>y m d. ymd_of (arg_or (a_due_date a) PNone) = Some (y, m, d) \<longrightarrow>
      map_of (wire a cs (PStr ds) due) ''due_date'' =
        Some (PStr (pad2 d @ '' '' @ tbl ! (m - 1) @ '' '' @ pad4 y))"
    using due by (auto simp: wire_entries dest: strftime_of_ymd[where tbl = tbl] split: if_splits)
  have d3: "arg_or (a_due_date a) PNone = PNone \<longrightarrow>
      map_of (wire a cs (PStr ds) due) ''due_date'' = Some PNone"
    using due by (simp add: wire_entries)
  show "\<exists>tbl W. map_of (locale_db w) LOCALE = Some tbl \<and> lc_time w' = tbl \<and> j = PDict W \<and>
          (\<forall>y m d. ymd_of (arg_or (a_date a) (default_date cls)) = Some (y, m, d) \<longrightarrow>
             map_of W ''date'' = Some (PStr (pad2 d @ '' '' @ tbl ! (m - 1) @ '' '' @ pad4 y))) \<and>
          (\<forall>y m d. ymd_of (arg_or (a_due_date a) PNone) = Some (y, m, d) \<longrightarrow>
             map_of W ''due_date'' = Some (PStr (pad2 d @ '' '' @ tbl ! (m - 1) @ '' '' @ pad4 y))) \<and>
          (arg_or (a_due_date a) PNone = PNone \<longrightarrow> map_of W ''due_date'' = Some PNone)"
    using db w' j d1 d2 d3 by simp
next
  show "length (pad2 n) = 2" by (simp add: pad2_def)
  show "set (pad2 n) \<subseteq> set ''0123456789''"
    by (rule pad_digits)
  show "length (pad4 n) = 4" by (simp add: pad4_def)
  show "set (pad4 n) \<subseteq> set ''0123456789''"
    by (rule pad_digits)
next
  assume "1 \<le> k \<and> k \<le> 12"
  then have "1 \<le> k" and "k \<le> 12" by simp_all
  then show "length (en_US_abmon ! (k - 1)) = 3"
    by (rule en_US_abmon_length)
qed


theorem date_strings_from_en_US_locale_witness:
  "\<not> isl (fst (to_json (ex_world, ex_invoice))) \<and>
   lc_time ex_world = it_IT_abmon \<and>
   lc_time (fst (snd (to_json (ex_world, ex_invoice)))) = en_US_abmon \<and>
   (\<exists>W. projr (fst (to_json (ex_world, ex_invoice))) = PDict W \<and>
        map_of W ''date'' = Some (PStr ''05 Jan 2024'') \<and>
        map_of W ''due_date'' = Some (PStr ''09 Feb 2024'')) \<and>
   \<not> isl (fst (to_json (ex_world, InvoiceGenerator_init ex_class ex_args_no_date))) \<and>
   (\<exists>W. projr (fst (to_json (ex_world, InvoiceGenerator_init ex_class ex_args_no_date))) = PDict W \<and>
        map_of W ''date'' = Some (PStr ''31 Dec 2023'') \<and>
        map_of W ''due_date'' = Some PNone) \<and>
   length (en_US_abmon ! (1 - 1)) = 3 \<and>
   map_of (locale_db ex_world_bare) LOCALE = None \<and>
   to_json (ex_world_bare, ex_invoice) = (Inl LocaleError, (ex_world_bare, ex_invoice))"
proof -
  let ?I = "InvoiceGenerator_init ex_class ex_args_no_date"
  have ok: "\<not> isl (fst (to_json (ex_world, ex_invoice)))"
    by code_simp
  have ok2: "\<not> isl (fst (to_json (ex_world, ?I)))"
    by code_simp
  have db: "map_of (locale_db ex_world) LOCALE = Some en_US_abmon"
    by (simp add: ex_world_def LOCALE_def)
  have bare: "map_of (locale_db ex_world_bare) LOCALE = None"
    by (simp add: ex_world_bare_def LOCALE_def)
  have d1: "ymd_of (arg_or (a_date ex_args) (default_date ex_class)) = Some (2024, 1, 5)"
    by (simp add: ex_args_def arg_or_def)
  have d2: "ymd_of (arg_or (a_due_date ex_args) PNone) = Some (2024, 2, 9)"
    by (simp add: ex_args_def arg_or_def)
  have d3: "ymd_of (arg_or (a_date ex_args_no_date) (default_date ex_class)) = Some (2023, 12, 31)"
    by (simp add: ex_args_no_date_def ex_args_def arg_or_def ex_class_def
        define_InvoiceGenerator_def)
  have d4: "arg_or (a_due_date ex_args_no_date) PNone = PNone"
    by (simp add: ex_args_no_date_def ex_args_def arg_or_def)
  have s1: "pad2 5 @ '' '' @ en_US_abmon ! (1 - 1) @ '' '' @ pad4 2024 = ''05 Jan 2024''"
    by (simp add: pad2_def pad4_def digit_def en_US_abmon_def)
  have s2: "pad2 9 @ '' '' @ en_US_abmon ! (2 - 1) @ '' '' @ pad4 2024 = ''09 Feb 2024''"
    by (simp add: pad2_def pad4_def digit_def en_US_abmon_def)
  have s3: "pad2 31 @ '' '' @ en_US_abmon ! (12 - 1) @ '' '' @ pad4 2023 = ''31 Dec 2023''"
    by (simp add: pad2_def pad4_def digit_def en_US_abmon_def)
  have nil: "after_calls [] ?I = ?I"
    by (simp add: after_calls_def)
  note T = date_strings_from_en_US_locale[of ex_world_bare ex_invoice ex_world ex_calls ex_class
      ex_args "projr (fst (to_json (ex_world, ex_invoice)))"
      "fst (snd (to_json (ex_world, ex_invoice)))" "snd (snd (to_json (ex_world, ex_invoice)))"
      5 1, folded ex_invoice_def]
  note T2 = date_strings_from_en_US_locale[of ex_world_bare ex_invoice ex_world "[]" ex_class
      ex_args_no_date "projr (fst (to_json (ex_world, ?I)))"
      "fst (snd (to_json (ex_world, ?I)))" "snd (snd (to_json (ex_world, ?I)))"
      5 1, unfolded nil]
  from T bare
  have none: "to_json (ex_world_bare, ex_invoice) = (Inl LocaleError, (ex_world_bare, ex_invoice))"
    by blast
  from T have len: "length (en_US_abmon ! (1 - 1)) = 3"
    by simp
  from T result_collapse[OF ok]
  obtain tbl W where tbl: "map_of (locale_db ex_world) LOCALE = Some tbl"
    and lc: "lc_time (fst (snd (to_json (ex_world, ex_invoice)))) = tbl"
    and W: "projr (fst (to_json (ex_world, ex_invoice))) = PDict W"
    and dt: "\<forall>y m d. ymd_of (arg_or (a_date ex_args) (default_date ex_class)) = Some (y, m, d) \<longrightarrow>
             map_of W ''date'' = Some (PStr (pad2 d @ '' '' @ tbl ! (m - 1) @ '' '' @ pad4 y))"
    and due: "\<forall>y m d. ymd_of (arg_or (a_due_date ex_args) PNone) = Some (y, m, d) \<longrightarrow>
             map_of W ''due_date'' = Some (PStr (pad2 d @ '' '' @ tbl ! (m - 1) @ '' '' @ pad4 y))"
    by blast
  have tbl_en: "tbl = en_US_abmon"
    using tbl db by simp
  have A: "\<exists>W. projr (fst (to_json (ex_world, ex_invoice))) = PDict W \<and>
        map_of W ''date'' = Some (PStr ''05 Jan 2024'') \<and>
        map_of W ''due_date'' = Some (PStr ''09 Feb 2024'')"
    using W dt d1 s1 due d2 s2 unfolding tbl_en by metis
  from T2 result_collapse[OF ok2]
  obtain tbl2 W2 where tbl2: "map_of (locale_db ex_world) LOCALE = Some tbl2"
    and W2: "projr (fst (to_json (ex_world, ?I))) = PDict W2"
    and dt2: "\<forall>y m d. ymd_of (arg_or (a_date ex_args_no_date) (default_date ex_class)) = Some (y, m, d) \<longrightarrow>
             map_of W2 ''date'' = Some (PStr (pad2 d @ '' '' @ tbl2 ! (m - 1) @ '' '' @ pad4 y))"
    and due2: "arg_or (a_due_date ex_args_no_date) PNone = PNone \<longrightarrow>
             map_of W2 ''due_date'' = Some PNone"
    by blast
  have tbl2_en: "tbl2 = en_US_abmon"
    using tbl2 db by simp
  have B: "\<exists>W. projr (fst (to_json (ex_world, ?I))) = PDict W \<and>
        map_of W ''date'' = Some (PStr ''31 Dec 2023'') \<and>
        map_of W ''due_date'' = Some PNone"
    using W2 dt2 d3 s3 due2 d4 unfolding tbl2_en by metis
  have it: "lc_time ex_world = it_IT_abmon"
    by (simp add: ex_world_def)
  from ok it lc tbl_en A ok2 B len bare none show ?thesis
    by (intro conjI) simp_all
qed

text \<open>
  C4 as stated fails on a machine without the locale \<open>en_US.utf8\<close>: the invoice dated
  2024-01-05 gets no date string, serialization raises \<open>locale.Error\<close>.
\<close>

theorem date_string_needs_installed_locale:
  "map_of ex_invoice ''date'' = Some (PDate 2024 1 5) \<and>
   fst (to_json (ex_world_bare, ex_invoice)) = Inl LocaleError"
  by code_simp

text \<open>
  C6, as the code has it. \<open>_to_json\<close> rewrites the attribute dictionary of the invoice
  in place and dumps that same dictionary: after a call that returned, the JSON object is
  the state of the invoice, which differs from the state before the call; \<open>sender\<close> and
  \<open>template\<close> are gone from it, \<open>from\<close> holds the former sender, \<open>date\<close> holds
  the formatted string, \<open>items\<close> and \<open>custom_fields\<close> hold plain dictionaries
  where the objects were, and a second serialization of the invoice raises.
\<close>

theorem serialization_rewrites_invoice:
  assumes "to_json (w, after_calls cs (InvoiceGenerator_init cls a)) = (Inr j, (w', s'))"
  shows "j = PDict s' \<and>
         s' \<noteq> after_calls cs (InvoiceGenerator_init cls a) \<and>
         map_of (after_calls cs (InvoiceGenerator_init cls a)) ''sender'' = Some (a_sender a) \<and>
         map_of s' ''sender'' = None \<and>
         map_of s' ''from'' = Some (a_sender a) \<and>
         map_of (after_calls cs (InvoiceGenerator_init cls a)) ''template'' =
           Some (PDict (template_after cs [])) \<and>
         map_of s' ''template'' = None \<and>
         (\<exists>ds. map_of s' ''date'' = Some (PStr ds)) \<and>
         map_of (after_calls cs (InvoiceGenerator_init cls a)) ''items'' =
           Some (PList (map (\<lambda>(n, q, u, d). Item_init n q u d) (item_args cs))) \<and>
         map_of s' ''items'' = Some (PList (map item_json (item_args cs))) \<and>
         map_of s' ''custom_fields'' =
           Some (PList (map custom_field_json (custom_field_args cs))) \<and>
         isl (fst (to_json (w', s')))"
proof -
  from to_json_reachable[OF assms]
  obtain tbl ds due where s': "s' = wire a cs (PStr ds) due" and j: "j = PDict s'"
    and db: "map_of (locale_db w) LOCALE = Some tbl" and w': "w' = w\<lparr>lc_time := tbl\<rparr>"
    by blast
  have "map_of s' ''sender'' \<noteq> map_of (after_calls cs (InvoiceGenerator_init cls a)) ''sender''"
    by (simp add: s' wire_entries reachable_entries)
  then have ne: "s' \<noteq> after_calls cs (InvoiceGenerator_init cls a)"
    by auto
  have "map_of (locale_db w') LOCALE = Some tbl"
    using db w' by simp
  then have again: "isl (fst (to_json (w', s')))"
    by (simp add: s' second_to_json)
  show ?thesis
    using j ne again
    by (simp add: s' wire_entries wire_no_template reachable_entries items_of_def)
qed

theorem serialization_rewrites_invoice_witness:
  "\<not> isl (fst (to_json (ex_world, ex_invoice))) \<and>
   projr (fst (to_json (ex_world, ex_invoice))) = PDict (snd (snd (to_json (ex_world, ex_invoice)))) \<and>
   snd (snd (to_json (ex_world, ex_invoice))) \<noteq> ex_invoice \<and>
   map_of (snd (snd (to_json (ex_world, ex_invoice)))) ''from'' = Some (PStr ''Acme'') \<and>
   isl (fst (to_json (snd (to_json (ex_world, ex_invoice)))))"
proof -
  have ok: "\<not> isl (fst (to_json (ex_world, ex_invoice)))"
    by code_simp
  from serialization_rewrites_invoice[OF result_collapse[OF ok, unfolded ex_invoice_def]] ok
  show ?thesis
    by (simp add: ex_invoice_def ex_args_def)
qed

text \<open>
  C6 as stated fails: after one serialization the invoice has lost its \<open>sender\<close>, its
  state is not the one it had, and serializing it again does not give the first result.
\<close>

theorem serialization_not_repeatable:
  "map_of ex_invoice ''sender'' = Some (PStr ''Acme'') \<and>
   map_of (snd (snd (to_json (ex_world, ex_invoice)))) ''sender'' = None \<and>
   snd (snd (to_json (ex_world, ex_invoice))) \<noteq> ex_invoice \<and>
   fst (to_json (snd (to_json (ex_world, ex_invoice)))) \<noteq> fst (to_json (ex_world, ex_invoice))"
  by code_simp

text \<open>
  C9, as the code has it. After a call of \<open>_to_json\<close> that returned, a second call
  on the same invoice raises \<open>AttributeError\<close>: the first call replaced \<open>date\<close> by
  its formatted string, and a string has no \<open>strftime\<close>. This happens before
  \<open>pop("sender")\<close> is reached, although \<open>sender\<close> and \<open>template\<close> are indeed
  gone from the state.
\<close>

theorem second_serialization_raises:
  assumes "to_json (w, after_calls cs (InvoiceGenerator_init cls a)) = (Inr j, st)"
  shows "fst (to_json st) = Inl (AttributeError ''strftime'') \<and>
         (\<exists>ds. map_of (snd st) ''date'' = Some (PStr ds)) \<and>
         map_of (snd st) ''sender'' = None \<and> map_of (snd st) ''template'' = None"
proof -
  obtain w' s' where st: "st = (w', s')" by (cases st)
  from to_json_reachable[OF assms[unfolded st]]
  obtain tbl ds due where db: "map_of (locale_db w) LOCALE = Some tbl"
    and w': "w' = w\<lparr>lc_time := tbl\<rparr>" and s': "s' = wire a cs (PStr ds) due"
    by blast
  have "map_of (locale_db w') LOCALE = Some tbl"
    using db w' by simp
  then show ?thesis
    by (simp add: st s' second_to_json wire_entries wire_no_template)
qed

theorem second_serialization_raises_witness:
  "\<not> isl (fst (to_json (ex_world, ex_invoice))) \<and>
   fst (to_json (snd (to_json (ex_world, ex_invoice)))) = Inl (AttributeError ''strftime'') \<and>
   map_of (snd (snd (to_json (ex_world, ex_invoice)))) ''date'' = Some (PStr ''05 Jan 2024'')"
proof -
  have ok: "\<not> isl (fst (to_json (ex_world, ex_invoice)))"
    by code_simp
  have dt: "map_of (snd (snd (to_json (ex_world, ex_invoice)))) ''date'' = Some (PStr ''05 Jan 2024'')"
    by code_simp
  from second_serialization_raises[OF result_collapse[OF ok, unfolded ex_invoice_def]] ok dt
  show ?thesis
    by (simp add: ex_invoice_def)
qed

text \<open>
  C9 as stated fails: the error of the second call is not a \<open>KeyError\<close>.
\<close>

theorem second_serialization_not_KeyError:
  "\<not> isl (fst (to_json (ex_world, ex_invoice))) \<and>
   fst (to_json (snd (to_json (ex_world, ex_invoice)))) \<noteq> Inl (KeyError ''sender'') \<and>
   fst (to_json (snd (to_json (ex_world, ex_invoice)))) \<noteq> Inl (KeyError ''template'')"
  by code_simp

text \<open>
  C7, as the code has it. The loop of the batch script passes every cleaned record to
  its body. A record whose amount is below zero is skipped entirely: the world after it
  is the world before it, so nothing is submitted and no file is written. Every other
  record, the amount zero included, gets an invoice with the fixed sender, the
  description of the record as recipient and one line item charging the amount, and that
  invoice is posted (the description being present and serializable, the locale
  available).
\<close>

theorem record_submitted_unless_negative:
  assumes cl: "clean P rec = Inr row"
    and desc: "map_of rec description = Some desc"
    and ser: "json_serializable desc"
    and db: "map_of (locale_db w) LOCALE = Some tbl"
  shows "\<exists>f. map_of row amount = Some (PFloat f) \<and>
     main cls P srv (rec # records) w =
       (case process_row cls srv row w of
          (Inl e, w') \<Rightarrow> (Inl e, w') | (Inr u, w') \<Rightarrow> main cls P srv records w') \<and>
     (float_lt_zero f \<longrightarrow> process_row cls srv row w = (Inr (), w)) \<and>
     (\<not> float_lt_zero f \<longrightarrow>
        (\<exists>body. posted (snd (process_row cls srv row w)) = posted w @ [PDict body] \<and>
           map_of body ''from'' = Some (PStr ''EA2 Consulting'') \<and>
           map_of body ''to'' = Some desc \<and>
           map_of body ''items'' =
             Some (PList [PDict [(''name'', PStr ''Consultative services''),
                                 (''quantity'', PInt 1), (''unit_cost'', PFloat f),
                                 (''description'', PNone)]])))"
proof -
  from clean_Inr[OF cl] desc
  obtain y m d f where dk: "map_of row date_key = Some (PDate y m d)"
    and am: "map_of row amount = Some (PFloat f)"
    and de: "map_of row description = Some desc"
    by auto
  let ?a = "row_args desc (PDate y m d)"
  let ?cs = "[row_call (PFloat f)]"
  let ?W = "wire ?a ?cs (PStr (format_date tbl y m d DATE_FORMAT)) PNone"
  have mn: "main cls P srv (rec # records) w =
       (case process_row cls srv row w of
          (Inl e, w') \<Rightarrow> (Inl e, w') | (Inr u, w') \<Rightarrow> main cls P srv records w')"
    using cl by simp
  have neg: "float_lt_zero f \<longrightarrow> process_row cls srv row w = (Inr (), w)"
    using am by (simp add: process_row_def row_getitem_def)
  have pos: "\<not> float_lt_zero f \<longrightarrow>
      posted (snd (process_row cls srv row w)) = posted w @ [PDict ?W]"
  proof
    assume nn: "\<not> float_lt_zero f"
    have "process_row cls srv row w =
          (case download srv (''invoices/'' @ date_str (PDate y m d) @ ''.pdf'')
                  (w, after_calls ?cs (InvoiceGenerator_init cls ?a)) of
             (r, (w', invoice')) \<Rightarrow> (r, w'))"
      using am de dk nn by (simp add: process_row_def row_getitem_def row_invoice)
    then have "snd (process_row cls srv row w) =
          fst (snd (download srv (''invoices/'' @ date_str (PDate y m d) @ ''.pdf'')
                  (w, after_calls ?cs (InvoiceGenerator_init cls ?a))))"
      by (simp add: split_beta)
    then show "posted (snd (process_row cls srv row w)) = posted w @ [PDict ?W]"
      using download_posts[OF row_to_json[OF db ser]] by simp
  qed
  have body: "map_of ?W ''from'' = Some (PStr ''EA2 Consulting'')"
    "map_of ?W ''to'' = Some desc"
    "map_of ?W ''items'' =
       Some (PList [PDict [(''name'', PStr ''Consultative services''),
                           (''quantity'', PInt 1), (''unit_cost'', PFloat f),
                           (''description'', PNone)]])"
    by (simp_all add: wire_entries row_args_def row_call_def item_json_def arg_or_def)
  show ?thesis
    using am mn neg pos body by blast
qed

theorem record_submitted_unless_negative_witness:
  "clean ex_parsers ex_record_A =
     Inr [(''Date (UTC)'', PDate 2024 1 5), (''Description'', PStr ''A''),
          (''Amount'', PFloat (Finite 100))] \<and>
   (\<exists>body. posted (snd (process_row ex_class ex_server_ok
                [(''Date (UTC)'', PDate 2024 1 5), (''Description'', PStr ''A''),
                 (''Amount'', PFloat (Finite 100))] ex_world)) = [PDict body] \<and>
           map_of body ''from'' = Some (PStr ''EA2 Consulting'') \<and>
           map_of body ''to'' = Some (PStr ''A'') \<and>
           map_of body ''items'' =
             Some (PList [PDict [(''name'', PStr ''Consultative services''),
                                 (''quantity'', PInt 1), (''unit_cost'', PFloat (Finite 100)),
                                 (''description'', PNone)]])) \<and>
   clean ex_parsers ex_record_B =
     Inr [(''Date (UTC)'', PDate 2024 1 6), (''Description'', PStr ''B''),
          (''Amount'', PFloat (Finite (- 50)))] \<and>
   process_row ex_class ex_server_ok
     [(''Date (UTC)'', PDate 2024 1 6), (''Description'', PStr ''B''),
      (''Amount'', PFloat (Finite (- 50)))] ex_world = (Inr (), ex_world) \<and>
   length (posted (snd (main ex_class ex_parsers ex_server_ok ex_records ex_world))) = 1"
proof -
  have both: "length (posted (snd (main ex_class ex_parsers ex_server_ok ex_records ex_world))) = 1"
    by code_simp
  have cA: "clean ex_parsers ex_record_A =
     Inr [(''Date (UTC)'', PDate 2024 1 5), (''Description'', PStr ''A''),
          (''Amount'', PFloat (Finite 100))]"
    by code_simp
  have cB: "clean ex_parsers ex_record_B =
     Inr [(''Date (UTC)'', PDate 2024 1 6), (''Description'', PStr ''B''),
          (''Amount'', PFloat (Finite (- 50)))]"
    by code_simp
  have dA: "map_of ex_record_A description = Some (PStr ''A'')"
    by (simp add: ex_record_A_def description_def)
  have dB: "map_of ex_record_B description = Some (PStr ''B'')"
    by (simp add: ex_record_B_def description_def)
  have db: "map_of (locale_db ex_world) LOCALE = Some en_US_abmon"
    by (simp add: ex_world_def LOCALE_def)
  have p0: "posted ex_world = []"
    by (simp add: ex_world_def)
  from record_submitted_unless_negative[OF cA dA _ db, of ex_class ex_server_ok "[]"]
  have A: "\<exists>body. posted (snd (process_row ex_class ex_server_ok
                [(''Date (UTC)'', PDate 2024 1 5), (''Description'', PStr ''A''),
                 (''Amount'', PFloat (Finite 100))] ex_world)) = [PDict body] \<and>
           map_of body ''from'' = Some (PStr ''EA2 Consulting'') \<and>
           map_of body ''to'' = Some (PStr ''A'') \<and>
           map_of body ''items'' =
             Some (PList [PDict [(''name'', PStr ''Consultative services''),
                                 (''quantity'', PInt 1), (''unit_cost'', PFloat (Finite 100)),
                                 (''description'', PNone)]])"
    by (auto simp: amount_def p0)
  from record_submitted_unless_negative[OF cB dB _ db, of ex_class ex_server_ok "[]"]
  have B: "process_row ex_class ex_server_ok
     [(''Date (UTC)'', PDate 2024 1 6), (''Description'', PStr ''B''),
      (''Amount'', PFloat (Finite (- 50)))] ex_world = (Inr (), ex_world)"
    by (auto simp: amount_def)
  from cA A cB B both show ?thesis
    by (intro conjI)
qed

text \<open>
  C7 as stated fails on a record whose amount is zero: it is not strictly positive, and
  the script submits an invoice for it.
\<close>

theorem zero_amount_is_submitted:
  "float_of ex_parsers ''0'' = Inr (Finite 0) \<and> \<not> (0 < (0::real)) \<and>
   fst (main ex_class ex_parsers ex_server_ok [ex_record_zero] ex_world) = Inr () \<and>
   length (posted (snd (main ex_class ex_parsers ex_server_ok [ex_record_zero] ex_world))) = 1"
  by code_simp

end
